theory Spec2Isabelle
  imports Complex_Main
begin

section \<open>Values decoded from JSON\<close>

text \<open>
  The poller decodes a response into Go's dynamic JSON representation: a value of type
  \<open>interface{}\<close> is nil, a bool, a float64, a string, a \<open>[]interface{}\<close> or a
  \<open>map[string]interface{}\<close>. A finite float64 is a rational number, and Go compares two
  of them as numbers. A map is kept as an association list read with \<open>map_of\<close>.
\<close>

datatype jvalue =
    JNull
  | JBool bool
  | JNum rat
  | JStr string
  | JArr "jvalue list"
  | JObj "(string \<times> jvalue) list"

type_synonym jobject = "(string \<times> jvalue) list"

text \<open>Indexing a Go map yields the zero value for a missing key: the nil interface.\<close>

definition jindex :: "jobject \<Rightarrow> string \<Rightarrow> jvalue" where
  "jindex r k = (case map_of r k of None \<Rightarrow> JNull | Some v \<Rightarrow> v)"

text \<open>
  \<open>a == b\<close> on two interface values: nil equals nil, values of different dynamic types
  are unequal, and two values of the same uncomparable dynamic type (slice or map) make
  the comparison panic at run time, which is \<open>None\<close> here.
\<close>

fun iface_eq :: "jvalue \<Rightarrow> jvalue \<Rightarrow> bool option" where
  "iface_eq (JArr _) (JArr _) = None"
| "iface_eq (JObj _) (JObj _) = None"
| "iface_eq a b = Some (a = b)"

text \<open>\<open>v.(string)\<close> in its comma-ok form: the zero string when \<open>v\<close> is not a string.\<close>

definition as_string_or_zero :: "jvalue \<Rightarrow> string" where
  "as_string_or_zero v = (case v of JStr s \<Rightarrow> s | _ \<Rightarrow> [])"

section \<open>Configuration and reader state\<close>

record collectionState =
  Version :: string
  NextRecordTime :: string
  LastTimeRecords :: "string list"

record BaseConfig =
  ServerURL :: string
  Username :: string
  Password :: string
  AdditionalConfig :: "string \<rightharpoonup> string"

text \<open>Indexing a \<open>map[string]string\<close>: the empty string for a missing key.\<close>

definition cfg_index :: "(string \<rightharpoonup> string) \<Rightarrow> string \<Rightarrow> string" where
  "cfg_index m k = (case m k of None \<Rightarrow> [] | Some v \<Rightarrow> v)"

definition endpointKey :: string where "endpointKey = ''Endpoint''"
definition timestampFieldKey :: string where "timestampFieldKey = ''TimestampField''"
definition nextRecordTimeKey :: string where "nextRecordTimeKey = ''NextRecordTime''"
definition recordCountKey :: string where "recordCountKey = ''RecordCount''"
definition timeTemplate :: string where "timeTemplate = ''2006-01-02 15:04:05''"

text \<open>
  A Go \<open>error\<close> value. The error built from the source's own error payload keeps the
  payload instead of its rendering by \<open>fmt.Sprintf\<close>.
\<close>

datatype error = Error string | SourceError jvalue

text \<open>A run-time panic: a failed type assertion or a comparison of uncomparable values.\<close>

datatype panic = TypeAssertion | Uncomparable | NilWriter

text \<open>The envelope handed to the downstream writer.\<close>

record Data =
  MetaInfo :: "(string \<times> string) list"
  RawData :: "string list"

text \<open>
  The reader. Each collaborator it holds is kept by what can be observed of it: the
  writer by the envelopes it was handed, the checkpointer by the blob it stores for this
  task, the HTTP client by the URLs it was asked to fetch.
\<close>

record SnowDataReader =
  config :: BaseConfig
  writer :: "Data list"
  checkpoint :: "string option"
  http_client :: "string list"
  state :: collectionState
  collecting :: int
  started :: int

section \<open>Removing the records collected last time\<close>

text \<open>
  The loop of \<open>doRemoveRecords\<close>, with its two accumulators: the IDs removed and the
  records to be indexed. An element that is not a map is logged and skipped.
\<close>

fun doRemoveRecords_loop ::
  "string \<Rightarrow> (string \<rightharpoonup> bool) \<Rightarrow> string \<Rightarrow> jvalue list \<Rightarrow>
   string list \<times> jvalue list \<Rightarrow> string list \<times> jvalue list" where
  "doRemoveRecords_loop timefield lastTimeRecords lastRecordTime [] acc = acc"
| "doRemoveRecords_loop timefield lastTimeRecords lastRecordTime (x # xs) (removed, indexed) =
     (case x of
        JObj r \<Rightarrow>
          if jindex r timefield = JStr lastRecordTime then
            (let sysId = as_string_or_zero (jindex r ''sys_id'') in
             if lastTimeRecords sysId \<noteq> None
             then doRemoveRecords_loop timefield lastTimeRecords lastRecordTime xs
                    (removed @ [sysId], indexed)
             else doRemoveRecords_loop timefield lastTimeRecords lastRecordTime xs
                    (removed, indexed @ [JObj r]))
          else doRemoveRecords_loop timefield lastTimeRecords lastRecordTime xs
                 (removed, indexed @ [JObj r])
      | _ \<Rightarrow> doRemoveRecords_loop timefield lastTimeRecords lastRecordTime xs (removed, indexed))"

definition doRemoveRecords ::
  "SnowDataReader \<Rightarrow> jvalue list \<Rightarrow> (string \<rightharpoonup> bool) \<Rightarrow> string \<Rightarrow> jvalue list" where
  "doRemoveRecords snow records lastTimeRecords lastRecordTime =
     snd (doRemoveRecords_loop (cfg_index (AdditionalConfig (config snow)) timestampFieldKey)
            lastTimeRecords lastRecordTime records ([], []))"

text \<open>The set built from the checkpoint's IDs before the records are filtered.\<close>

fun mkLastTimeRecords :: "string list \<Rightarrow> (string \<rightharpoonup> bool) \<Rightarrow> (string \<rightharpoonup> bool)" where
  "mkLastTimeRecords [] m = m"
| "mkLastTimeRecords (i # is) m = mkLastTimeRecords is (m(i \<mapsto> True))"

section \<open>The collaborators of one poll cycle\<close>

text \<open>
  What the world outside the reader answers during one poll cycle: the HTTP transport and
  decompression, the JSON codec, the downstream writer, the checkpointer and Go's time
  package. The repository's own \<open>base\<close> package is not part of the sources at hand, so
  \<open>base.ToJsonObject\<close> and the metadata keys \<open>base.ServerURL\<close> and \<open>base.Username\<close> are
  taken from here as well. \<open>sprint_record\<close> is the join of \<open>fmt.Sprintf\<close> over the entries
  of one record. \<open>checkpoint_GetCheckpoint_err\<close> is the failure, if any, of reading the
  stored blob.
\<close>

record 't env =
  http_NewRequest :: "string \<Rightarrow> error option"
  http_Do :: "string \<Rightarrow> error + string"
  gzip_NewReader :: "string \<Rightarrow> error + string"
  ioutil_ReadAll :: "string \<Rightarrow> error + string"
  base_ToJsonObject :: "string \<Rightarrow> error + jobject"
  base_ServerURL :: string
  base_Username :: string
  sprint_record :: "jobject \<Rightarrow> string"
  writer_WriteData :: "Data \<Rightarrow> error option"
  checkpoint_GetCheckpoint_err :: "error option"
  checkpoint_WriteCheckpoint :: "(string \<rightharpoonup> string) \<Rightarrow> string \<Rightarrow> error option"
  json_Marshal :: "collectionState \<Rightarrow> error + string"
  json_Unmarshal :: "string \<Rightarrow> error + collectionState"
  time_Parse :: "string \<Rightarrow> string \<Rightarrow> error + 't"
  time_Add :: "'t \<Rightarrow> int \<Rightarrow> 't"
  time_Format :: "'t \<Rightarrow> string \<Rightarrow> string"

text \<open>\<open>time.Second\<close>, a duration in nanoseconds.\<close>

definition time_Second :: int where
  "time_Second = 1000000000"

text \<open>
  Modelled from the spec: \<open>base.NewData\<close>, which is not part of the sources at hand,
  builds the envelope \<open>{metaInfo, rawData}\<close> of section 6 from its two arguments.
\<close>

definition base_NewData :: "(string \<times> string) list \<Rightarrow> string list \<Rightarrow> Data" where
  "base_NewData metaInfo rawData = \<lparr>MetaInfo = metaInfo, RawData = rawData\<rparr>"

subsection \<open>\<open>strconv.Atoi\<close>\<close>

text \<open>
  Go's \<open>strconv.Atoi\<close> on a 64-bit platform: an optional sign and then decimal digits
  only. On a syntax error the value is 0; a number out of the range of \<open>int\<close> is clamped
  to the nearest bound and reported as a range error.
\<close>

fun parse_uint :: "string \<Rightarrow> int \<Rightarrow> int option" where
  "parse_uint [] n = Some n"
| "parse_uint (c # cs) n =
     (let d = (of_char c :: int) in
      if 48 \<le> d \<and> d \<le> 57 then parse_uint cs (n * 10 + (d - 48)) else None)"

definition strconv_Atoi :: "string \<Rightarrow> int \<times> error option" where
  "strconv_Atoi s =
     (let neg = (s \<noteq> [] \<and> hd s = CHR ''-'');
          digits = (if s \<noteq> [] \<and> (hd s = CHR ''+'' \<or> hd s = CHR ''-'') then tl s else s)
      in if digits = [] then (0, Some (Error ''invalid syntax''))
         else case parse_uint digits 0 of
                None \<Rightarrow> (0, Some (Error ''invalid syntax''))
              | Some n \<Rightarrow>
                  if neg then
                    (if n > 2 ^ 63 then (- (2 ^ 63), Some (Error ''value out of range''))
                     else (- n, None))
                  else
                    (if n \<ge> 2 ^ 63 then (2 ^ 63 - 1, Some (Error ''value out of range''))
                     else (n, None)))"

subsection \<open>Construction\<close>

fun first_missing :: "(string \<rightharpoonup> string) \<Rightarrow> string list \<Rightarrow> string option" where
  "first_missing m [] = None"
| "first_missing m (key # keys) = (if m key = None then Some key else first_missing m keys)"

definition acquiredConfigs :: "string list" where
  "acquiredConfigs = [endpointKey, timestampFieldKey, nextRecordTimeKey]"

text \<open>The result is \<open>None\<close> where the constructor returns a nil reader.\<close>

definition NewSnowDataReader ::
  "BaseConfig \<Rightarrow> Data list \<Rightarrow> string option \<Rightarrow> SnowDataReader option" where
  "NewSnowDataReader cfg wr checkpointer =
     (case first_missing (AdditionalConfig cfg) acquiredConfigs of
        Some key \<Rightarrow> None
      | None \<Rightarrow>
          Some \<lparr>config = cfg, writer = wr, checkpoint = checkpointer, http_client = [],
                state = \<lparr>Version = [], NextRecordTime = [], LastTimeRecords = []\<rparr>,
                collecting = 0, started = 0\<rparr>)"

subsection \<open>The cached checkpoint and the poll URL\<close>

definition getCheckpoint ::
  "'t env \<Rightarrow> SnowDataReader \<Rightarrow> collectionState option \<times> SnowDataReader" where
  "getCheckpoint env snow =
     (if NextRecordTime (state snow) \<noteq> [] then (Some (state snow), snow)
      else case checkpoint_GetCheckpoint_err env of
             Some err \<Rightarrow> (None, snow)
           | None \<Rightarrow>
               (case checkpoint snow of
                  None \<Rightarrow> (None, snow)
                | Some ck \<Rightarrow>
                    (case json_Unmarshal env ck of
                       Inl err \<Rightarrow> (None, snow)
                     | Inr currentState \<Rightarrow> (Some currentState, snow\<lparr>state := currentState\<rparr>))))"

text \<open>\<open>strings.Replace(s, " ", "+", 1)\<close>: the first space becomes a plus sign.\<close>

fun replace_first_space :: "string \<Rightarrow> string" where
  "replace_first_space [] = []"
| "replace_first_space (c # cs) =
     (if c = CHR '' '' then CHR ''+'' # cs else c # replace_first_space cs)"

definition getNextRecordTime :: "'t env \<Rightarrow> SnowDataReader \<Rightarrow> string \<times> SnowDataReader" where
  "getNextRecordTime env snow =
     (let (st, snow1) = getCheckpoint env snow;
          snow2 = (case st of
                     None \<Rightarrow> snow1\<lparr>state := (state snow1)
                               \<lparr>NextRecordTime :=
                                  cfg_index (AdditionalConfig (config snow1)) nextRecordTimeKey\<rparr>\<rparr>
                   | Some _ \<Rightarrow> snow1)
      in (replace_first_space (NextRecordTime (state snow2)), snow2))"

definition getURL :: "'t env \<Rightarrow> SnowDataReader \<Rightarrow> string \<times> SnowDataReader" where
  "getURL env snow =
     (let (nextRecordTime, snow1) = getNextRecordTime env snow;
          ac = AdditionalConfig (config snow1)
      in (ServerURL (config snow1) @ ''/'' @ cfg_index ac endpointKey
            @ ''.do?JSONv2&sysparm_query='' @ cfg_index ac timestampFieldKey @ ''>=''
            @ nextRecordTime @ ''^ORDERBY'' @ cfg_index ac timestampFieldKey
            @ ''&sysparm_record_count='' @ cfg_index ac recordCountKey,
          snow1))"

subsection \<open>Fetching one page\<close>

text \<open>\<open>atomic.CompareAndSwapInt32\<close>: the new content of the cell and whether it swapped.\<close>

definition CompareAndSwapInt32 :: "int \<Rightarrow> int \<Rightarrow> int \<Rightarrow> int \<times> bool" where
  "CompareAndSwapInt32 v old new = (if v = old then (new, True) else (v, False))"

text \<open>
  The result is the pair \<open>(data, err)\<close> of the source, each \<open>None\<close> where the source
  returns nil. The deferred store releases the guard on every path behind the swap.
\<close>

definition CollectData ::
  "'t env \<Rightarrow> SnowDataReader \<Rightarrow> (string option \<times> error option) \<times> SnowDataReader" where
  "CollectData env snow =
     (let (c, swapped) = CompareAndSwapInt32 (collecting snow) 0 1 in
      if \<not> swapped then
        (let (url, snow1) = getURL env snow in ((None, None), snow1))
      else
        (let (url, snow1) = getURL env (snow\<lparr>collecting := c\<rparr>) in
         case http_NewRequest env url of
           Some err \<Rightarrow> ((None, Some err), snow1\<lparr>collecting := 0\<rparr>)
         | None \<Rightarrow>
             (let snow2 = snow1\<lparr>http_client := http_client snow1 @ [url]\<rparr> in
              case http_Do env url of
                Inl err \<Rightarrow> ((None, Some err), snow2\<lparr>collecting := 0\<rparr>)
              | Inr resp \<Rightarrow>
                  (case gzip_NewReader env resp of
                     Inl err \<Rightarrow> ((None, Some err), snow2\<lparr>collecting := 0\<rparr>)
                   | Inr reader \<Rightarrow>
                       (case ioutil_ReadAll env reader of
                          Inl err \<Rightarrow> ((None, Some err), snow2\<lparr>collecting := 0\<rparr>)
                        | Inr body \<Rightarrow> ((Some body, None), snow2\<lparr>collecting := 0\<rparr>))))))"

subsection \<open>The tie-saturation guard\<close>

text \<open>
  The result is \<open>Inl\<close> where a type assertion or a comparison panics, and otherwise the
  records to be indexed with the \<open>refreshed\<close> flag. A nil slice and an empty one are the
  same list: the caller only takes the length.
\<close>

definition removeCollectedRecords ::
  "'t env \<Rightarrow> SnowDataReader \<Rightarrow> jvalue list \<Rightarrow>
   (panic + jvalue list \<times> bool) \<times> SnowDataReader" where
  "removeCollectedRecords env snow records =
     (let (ckp, snow1) = getCheckpoint env snow in
      case ckp of
        None \<Rightarrow> (Inr (records, False), snow1)
      | Some ck \<Rightarrow>
          if LastTimeRecords ck = [] \<or> records = [] then (Inr (records, False), snow1)
          else
            (let lastTimeRecords = mkLastTimeRecords (LastTimeRecords ck) Map.empty;
                 lastRecordTime = NextRecordTime ck;
                 recordsToBeIndexed = doRemoveRecords snow1 records lastTimeRecords lastRecordTime;
                 recordCount = fst (strconv_Atoi
                                 (cfg_index (AdditionalConfig (config snow1)) recordCountKey));
                 timefield = cfg_index (AdditionalConfig (config snow1)) timestampFieldKey
             in if int (length records) = recordCount then
                  (case hd records of
                     JObj firstRecord \<Rightarrow>
                       (case last records of
                          JObj lastRecord \<Rightarrow>
                            (case iface_eq (jindex firstRecord timefield)
                                    (jindex lastRecord timefield) of
                               None \<Rightarrow> (Inl Uncomparable, snow1)
                             | Some False \<Rightarrow> (Inr (recordsToBeIndexed, False), snow1)
                             | Some True \<Rightarrow>
                                 (case time_Parse env timeTemplate lastRecordTime of
                                    Inl err \<Rightarrow> (Inr ([], False), snow1)
                                  | Inr nextRecordTime \<Rightarrow>
                                      (Inr (recordsToBeIndexed, True),
                                       snow1\<lparr>state := (state snow1)
                                         \<lparr>NextRecordTime :=
                                            time_Format env
                                              (time_Add env nextRecordTime time_Second)
                                              timeTemplate,
                                          LastTimeRecords := []\<rparr>\<rparr>)))
                        | _ \<Rightarrow> (Inl TypeAssertion, snow1))
                   | _ \<Rightarrow> (Inl TypeAssertion, snow1))
                else (Inr (recordsToBeIndexed, False), snow1)))"

subsection \<open>Writing the checkpoint\<close>

text \<open>
  The backward scan of \<open>writeCheckpoint\<close>, run over the reversed records: it collects
  the \<open>sys_id\<close> of each record while the timestamp is that of the last record.
\<close>

fun maxTimestampRecords_loop ::
  "string \<Rightarrow> jobject \<Rightarrow> jvalue list \<Rightarrow> string list \<Rightarrow> panic + string list" where
  "maxTimestampRecords_loop timefield lastRecord [] acc = Inr acc"
| "maxTimestampRecords_loop timefield lastRecord (x # xs) acc =
     (case x of
        JObj r \<Rightarrow>
          (case iface_eq (jindex r timefield) (jindex lastRecord timefield) of
             None \<Rightarrow> Inl Uncomparable
           | Some False \<Rightarrow> Inr acc
           | Some True \<Rightarrow>
               (case jindex r ''sys_id'' of
                  JStr sysId \<Rightarrow> maxTimestampRecords_loop timefield lastRecord xs (acc @ [sysId])
                | _ \<Rightarrow> Inl TypeAssertion))
      | _ \<Rightarrow> Inl TypeAssertion)"

text \<open>
  The state \<open>writeCheckpoint\<close> builds from the records it is given, before it is
  marshalled. The comma-ok assertion on the last record yields a nil map when that
  element is not a map.
\<close>

definition currentState_of :: "string \<Rightarrow> jvalue list \<Rightarrow> panic + collectionState" where
  "currentState_of timefield records =
     (let lastRecord = (case last records of JObj m \<Rightarrow> m | _ \<Rightarrow> []) in
      case maxTimestampRecords_loop timefield lastRecord (rev records) [] of
        Inl p \<Rightarrow> Inl p
      | Inr maxTimestampRecords \<Rightarrow>
          (case jindex lastRecord timefield of
             JStr t \<Rightarrow> Inr \<lparr>Version = ''1'', NextRecordTime = t,
                            LastTimeRecords = maxTimestampRecords\<rparr>
           | _ \<Rightarrow> Inl TypeAssertion))"

text \<open>
  A checkpointer that reports a failure is taken to have stored nothing: the stored blob
  changes only where \<open>WriteCheckpoint\<close> returns no error.
\<close>

definition writeCheckpoint ::
  "'t env \<Rightarrow> SnowDataReader \<Rightarrow> jvalue list \<Rightarrow> bool \<Rightarrow>
   (panic + error option) \<times> SnowDataReader" where
  "writeCheckpoint env snow records refreshed =
     (if records = [] then (Inr None, snow)
      else
        case currentState_of
               (cfg_index (AdditionalConfig (config snow)) timestampFieldKey) records of
          Inl p \<Rightarrow> (Inl p, snow)
        | Inr currentState \<Rightarrow>
            (case json_Marshal env currentState of
               Inl err \<Rightarrow> (Inr (Some err), snow)
             | Inr data \<Rightarrow>
                 (case checkpoint_WriteCheckpoint env (AdditionalConfig (config snow)) data of
                    Some err \<Rightarrow> (Inr (Some err), snow)
                  | None \<Rightarrow>
                      (let snow1 = snow\<lparr>checkpoint := Some data\<rparr> in
                       (Inr None,
                        if \<not> refreshed then snow1\<lparr>state := currentState\<rparr> else snow1)))))"

subsection \<open>One poll cycle\<close>

text \<open>The rendering loop of \<open>IndexData\<close>; its type assertion panics on a non-map.\<close>

fun render_records :: "(jobject \<Rightarrow> string) \<Rightarrow> jvalue list \<Rightarrow> panic + string list" where
  "render_records f [] = Inr []"
| "render_records f (x # xs) =
     (case x of
        JObj r \<Rightarrow> (case render_records f xs of Inl p \<Rightarrow> Inl p | Inr ys \<Rightarrow> Inr (f r # ys))
      | _ \<Rightarrow> Inl TypeAssertion)"

text \<open>
  The branch of \<open>IndexData\<close> taken when the response holds a list of records. The
  envelope starts with one empty entry per record (the length given to \<open>make\<close>) and the
  rendered records are appended behind them. The writer's log takes every envelope
  handed to \<open>WriteData\<close>.
\<close>

definition indexRecords ::
  "'t env \<Rightarrow> SnowDataReader \<Rightarrow> jvalue list \<Rightarrow> (panic + error option) \<times> SnowDataReader" where
  "indexRecords env snow records0 =
     (let metaInfo = [(base_ServerURL env, ServerURL (config snow)),
                      (base_Username env, Username (config snow)),
                      (endpointKey, cfg_index (AdditionalConfig (config snow)) endpointKey)]
      in case removeCollectedRecords env snow records0 of
           (Inl p, snow1) \<Rightarrow> (Inl p, snow1)
         | (Inr (records, refreshed), snow1) \<Rightarrow>
             (case render_records (sprint_record env) records of
                Inl p \<Rightarrow> (Inl p, snow1)
              | Inr rendered \<Rightarrow>
                  (let allData0 = base_NewData metaInfo (replicate (length records) []);
                       allData = allData0\<lparr>RawData := RawData allData0 @ rendered\<rparr>
                   in if length records > 0 then
                        (let snow2 = snow1\<lparr>writer := writer snow1 @ [allData]\<rparr> in
                         case writer_WriteData env allData of
                           Some err \<Rightarrow> (Inr (Some err), snow2)
                         | None \<Rightarrow> writeCheckpoint env snow2 records refreshed)
                      else (Inr None, snow1))))"

definition IndexData ::
  "'t env \<Rightarrow> SnowDataReader \<Rightarrow> (panic + error option) \<times> SnowDataReader" where
  "IndexData env snow =
     (let ((data, err), snow1) = CollectData env snow in
      case data of
        None \<Rightarrow> (Inr err, snow1)
      | Some body \<Rightarrow>
          (case err of
             Some e \<Rightarrow> (Inr (Some e), snow1)
           | None \<Rightarrow>
               (case base_ToJsonObject env body of
                  Inl e \<Rightarrow> (Inr (Some e), snow1)
                | Inr jobj \<Rightarrow>
                    (case jindex jobj ''records'' of
                       JArr records \<Rightarrow> indexRecords env snow1 records
                     | _ \<Rightarrow>
                         (case map_of jobj ''error'' of
                            Some errDesc \<Rightarrow>
                              (let (url, snow2) = getURL env snow1
                               in (Inr (Some (SourceError errDesc)), snow2))
                          | None \<Rightarrow> (Inr None, snow1))))))"

section \<open>Predicates of the specification and sample data\<close>

text \<open>
  What the dedup step is to drop: a record at the checkpoint's timestamp whose ID the
  checkpoint lists. The ID of a record is its \<open>sys_id\<close> string, the empty string when the
  field is missing or not a string.
\<close>

definition already_collected :: "string \<Rightarrow> collectionState \<Rightarrow> jvalue \<Rightarrow> bool" where
  "already_collected timefield ck v =
     (case v of
        JObj r \<Rightarrow> jindex r timefield = JStr (NextRecordTime ck) \<and>
                  as_string_or_zero (jindex r ''sys_id'') \<in> set (LastTimeRecords ck)
      | _ \<Rightarrow> False)"

definition is_record :: "jvalue \<Rightarrow> bool" where
  "is_record v = (case v of JObj _ \<Rightarrow> True | _ \<Rightarrow> False)"

text \<open>The same test against the set the loop is handed.\<close>

definition listed :: "string \<Rightarrow> (string \<rightharpoonup> bool) \<Rightarrow> string \<Rightarrow> jvalue \<Rightarrow> bool" where
  "listed timefield lastTimeRecords lastRecordTime v =
     (case v of
        JObj r \<Rightarrow> jindex r timefield = JStr lastRecordTime \<and>
                  lastTimeRecords (as_string_or_zero (jindex r ''sys_id'')) \<noteq> None
      | _ \<Rightarrow> False)"

text \<open>
  The tie-saturation guard of a reader whose state is cached, on a page: the state lists
  IDs, the page is not empty and has exactly \<open>RecordCount\<close> elements, and its first and
  last elements are records whose timestamps compare equal.
\<close>

definition guard_fires :: "SnowDataReader \<Rightarrow> jvalue list \<Rightarrow> bool" where
  "guard_fires snow page =
     (LastTimeRecords (state snow) \<noteq> [] \<and> page \<noteq> [] \<and>
      int (length page) =
        fst (strconv_Atoi (cfg_index (AdditionalConfig (config snow)) recordCountKey)) \<and>
      (case hd page of
         JObj firstRecord \<Rightarrow>
           (case last page of
              JObj lastRecord \<Rightarrow>
                iface_eq
                  (jindex firstRecord
                     (cfg_index (AdditionalConfig (config snow)) timestampFieldKey))
                  (jindex lastRecord
                     (cfg_index (AdditionalConfig (config snow)) timestampFieldKey)) =
                Some True
            | _ \<Rightarrow> False)
       | _ \<Rightarrow> False))"

text \<open>The page of records a poll cycle fetches, if it fetches one.\<close>

definition fetched_page :: "'t env \<Rightarrow> SnowDataReader \<Rightarrow> jvalue list option" where
  "fetched_page env snow =
     (case fst (CollectData env snow) of
        (Some body, None) \<Rightarrow>
          (case base_ToJsonObject env body of
             Inr jobj \<Rightarrow> (case jindex jobj ''records'' of JArr page \<Rightarrow> Some page | _ \<Rightarrow> None)
           | Inl err \<Rightarrow> None)
      | _ \<Rightarrow> None)"

text \<open>
  The in-memory state after a poll cycle whose checkpoint write would fail: the state
  before it, unless the guard fired on the fetched page and the cursor parsed, and then
  the cursor one second later with no IDs.
\<close>

definition state_after_failed_write ::
  "'t env \<Rightarrow> SnowDataReader \<Rightarrow> collectionState" where
  "state_after_failed_write env snow =
     (case fetched_page env snow of
        None \<Rightarrow> state snow
      | Some page \<Rightarrow>
          if guard_fires snow page then
            (case time_Parse env timeTemplate (NextRecordTime (state snow)) of
               Inl err \<Rightarrow> state snow
             | Inr t \<Rightarrow>
                 (state snow)
                   \<lparr>NextRecordTime := time_Format env (time_Add env t time_Second) timeTemplate,
                    LastTimeRecords := []\<rparr>)
          else state snow)"

text \<open>A numeric string: an optional sign and then one decimal digit or more.\<close>

definition is_digit :: "char \<Rightarrow> bool" where
  "is_digit c = (48 \<le> (of_char c :: int) \<and> (of_char c :: int) \<le> 57)"

definition numeric :: "string \<Rightarrow> bool" where
  "numeric s =
     (let digits = (if s \<noteq> [] \<and> (hd s = CHR ''+'' \<or> hd s = CHR ''-'') then tl s else s)
      in digits \<noteq> [] \<and> list_all is_digit digits)"

text \<open>
  Sample data. \<open>rec_of\<close> is a record with an ID and a timestamp in the field \<open>t\<close>;
  \<open>reader_at\<close> is a reader with the given cached state and the page size \<open>recordCount\<close>,
  whose timestamp field is \<open>t\<close>. \<open>poll_env\<close> is a cycle in which every collaborator
  succeeds and the source answers with the given page; instants are nanoseconds since
  the epoch, and the sample clock knows the one timestamp the samples parse.
\<close>

definition rec_of :: "string \<Rightarrow> string \<Rightarrow> jvalue" where
  "rec_of i ts = JObj [(''sys_id'', JStr i), (''t'', JStr ts)]"

definition reader_at :: "collectionState \<Rightarrow> string \<Rightarrow> SnowDataReader" where
  "reader_at st recordCount =
     \<lparr>config = \<lparr>ServerURL = ''https://snow'', Username = ''u'', Password = ''p'',
                 AdditionalConfig =
                   [endpointKey \<mapsto> ''incident'', timestampFieldKey \<mapsto> ''t'',
                    nextRecordTimeKey \<mapsto> ''2015-01-01 10:00:00'',
                    recordCountKey \<mapsto> recordCount]\<rparr>,
      writer = [], checkpoint = None, http_client = [], state = st,
      collecting = 0, started = 1\<rparr>"

definition cursor :: "string \<Rightarrow> string list \<Rightarrow> collectionState" where
  "cursor ts ids = \<lparr>Version = ''1'', NextRecordTime = ts, LastTimeRecords = ids\<rparr>"

definition sample_Parse :: "string \<Rightarrow> string \<Rightarrow> error + int" where
  "sample_Parse layout v =
     (if v = ''2015-01-01 10:00:01'' then Inr 1420106401000000000
      else Inl (Error ''cannot parse''))"

definition sample_Format :: "int \<Rightarrow> string \<Rightarrow> string" where
  "sample_Format t layout =
     (if t = 1420106402000000000 then ''2015-01-01 10:00:02'' else ''?'')"

definition sample_sprint :: "jobject \<Rightarrow> string" where
  "sample_sprint r =
     as_string_or_zero (jindex r ''sys_id'') @ ''@'' @ as_string_or_zero (jindex r ''t'')"

definition sample_Marshal :: "collectionState \<Rightarrow> error + string" where
  "sample_Marshal st = Inr (NextRecordTime st @ ''|'' @ concat (LastTimeRecords st))"

definition poll_env :: "jvalue list \<Rightarrow> int env" where
  "poll_env page =
     \<lparr>http_NewRequest = (\<lambda>u. None), http_Do = (\<lambda>u. Inr ''gzip''),
      gzip_NewReader = (\<lambda>r. Inr r), ioutil_ReadAll = (\<lambda>r. Inr ''body''),
      base_ToJsonObject = (\<lambda>b. Inr [(''records'', JArr page)]),
      base_ServerURL = ''ServerURL'', base_Username = ''Username'',
      sprint_record = sample_sprint,
      writer_WriteData = (\<lambda>d. None),
      checkpoint_GetCheckpoint_err = None,
      checkpoint_WriteCheckpoint = (\<lambda>c d. None),
      json_Marshal = sample_Marshal,
      json_Unmarshal = (\<lambda>b. Inl (Error ''no stored checkpoint'')),
      time_Parse = sample_Parse, time_Add = (\<lambda>t d. t + d), time_Format = sample_Format\<rparr>"

text \<open>The same cycle with a checkpointer that refuses every write.\<close>

definition store_down_env :: "jvalue list \<Rightarrow> int env" where
  "store_down_env page =
     (poll_env page)\<lparr>checkpoint_WriteCheckpoint := (\<lambda>c d. Some (Error ''store down''))\<rparr>"

definition dedup_checkpoint :: collectionState where
  "dedup_checkpoint = cursor ''10:00:01'' [''b'', ''c'']"

definition dedup_page :: "jvalue list" where
  "dedup_page = [rec_of ''b'' ''10:00:01'', rec_of ''c'' ''10:00:01'', rec_of ''d'' ''10:00:02'']"

text \<open>A page of two records at one timestamp, for a page size of two.\<close>

definition tie_page :: "jvalue list" where
  "tie_page = [rec_of ''a'' ''2015-01-01 10:00:01'', rec_of ''b'' ''2015-01-01 10:00:01'']"

lemmas sample_defs =
  rec_of_def reader_at_def cursor_def sample_Parse_def sample_Format_def sample_sprint_def
  sample_Marshal_def poll_env_def store_down_env_def dedup_checkpoint_def dedup_page_def
  tie_page_def

lemmas key_defs =
  endpointKey_def timestampFieldKey_def nextRecordTimeKey_def recordCountKey_def
  timeTemplate_def time_Second_def

lemmas value_defs =
  jindex_def as_string_or_zero_def cfg_index_def is_record_def already_collected_def

section \<open>Properties of the dedup step\<close>

lemma mkLastTimeRecords_None:
  "(mkLastTimeRecords ids m k = None) = (k \<notin> set ids \<and> m k = None)"
  by (induction ids arbitrary: m) auto

lemma listed_mkLastTimeRecords:
  "listed tf (mkLastTimeRecords (LastTimeRecords ck) Map.empty) (NextRecordTime ck) v =
   already_collected tf ck v"
  by (cases v) (simp_all add: listed_def already_collected_def mkLastTimeRecords_None)

lemma doRemoveRecords_loop_filter:
  "snd (doRemoveRecords_loop tf ltr lrt records (removed, indexed)) =
   indexed @ filter (\<lambda>v. is_record v \<and> \<not> listed tf ltr lrt v) records"
proof (induction records arbitrary: removed indexed)
  case Nil
  then show ?case by simp
next
  case (Cons x xs)
  show ?case
  proof (cases x)
    case (JObj r)
    then show ?thesis
      using Cons.IH by (simp add: is_record_def listed_def Let_def)
  qed (use Cons.IH in \<open>simp_all add: is_record_def listed_def\<close>)
qed

lemma doRemoveRecords_filter:
  "doRemoveRecords snow records ltr lrt =
   filter (\<lambda>v. is_record v \<and>
             \<not> listed (cfg_index (AdditionalConfig (config snow)) timestampFieldKey) ltr lrt v)
     records"
  by (simp add: doRemoveRecords_def doRemoveRecords_loop_filter)

text \<open>
  The dedup step as a partition: the records \<open>doRemoveRecords\<close> hands on are the records
  of the page minus those at the checkpoint's \<open>NextRecordTime\<close> whose ID its
  \<open>LastTimeRecords\<close> lists, in the order of the page. An element of the page that is
  not a field-to-value mapping is no record and is skipped.
\<close>

lemma doRemoveRecords_partition:
  "doRemoveRecords snow page (mkLastTimeRecords (LastTimeRecords ck) Map.empty)
     (NextRecordTime ck) =
   filter (\<lambda>v. is_record v \<and>
             \<not> already_collected (cfg_index (AdditionalConfig (config snow)) timestampFieldKey)
                 ck v) page"
  by (simp add: doRemoveRecords_filter listed_mkLastTimeRecords)

section \<open>The cached checkpoint is all a lookup changes\<close>

lemma getCheckpoint_state:
  "\<exists>st. snd (getCheckpoint env snow) = snow\<lparr>state := st\<rparr>"
proof (cases "snd (getCheckpoint env snow) = snow")
  case True
  then have "snd (getCheckpoint env snow) = snow\<lparr>state := state snow\<rparr>" by simp
  then show ?thesis ..
next
  case False
  then show ?thesis
    by (auto simp add: getCheckpoint_def split: option.splits sum.splits if_splits)
qed

lemma getCheckpoint_frame:
  "config (snd (getCheckpoint env snow)) = config snow"
  "writer (snd (getCheckpoint env snow)) = writer snow"
  "checkpoint (snd (getCheckpoint env snow)) = checkpoint snow"
  "http_client (snd (getCheckpoint env snow)) = http_client snow"
  "collecting (snd (getCheckpoint env snow)) = collecting snow"
  using getCheckpoint_state [of env snow] by auto

lemma getCheckpoint_cached:
  "NextRecordTime (state snow) \<noteq> [] \<Longrightarrow> getCheckpoint env snow = (Some (state snow), snow)"
  by (simp add: getCheckpoint_def)

lemma getNextRecordTime_state:
  "\<exists>st. snd (getNextRecordTime env snow) = snow\<lparr>state := st\<rparr>"
proof -
  obtain st where "snd (getCheckpoint env snow) = snow\<lparr>state := st\<rparr>"
    using getCheckpoint_state by blast
  then show ?thesis
    by (cases "getCheckpoint env snow")
       (auto simp add: getNextRecordTime_def Let_def split: option.splits)
qed

lemma getURL_state:
  "\<exists>st. snd (getURL env snow) = snow\<lparr>state := st\<rparr>"
proof -
  obtain st where "snd (getNextRecordTime env snow) = snow\<lparr>state := st\<rparr>"
    using getNextRecordTime_state by blast
  then show ?thesis
    by (cases "getNextRecordTime env snow") (auto simp add: getURL_def Let_def)
qed

lemma getURL_frame:
  "config (snd (getURL env snow)) = config snow"
  "writer (snd (getURL env snow)) = writer snow"
  "checkpoint (snd (getURL env snow)) = checkpoint snow"
  "http_client (snd (getURL env snow)) = http_client snow"
  "collecting (snd (getURL env snow)) = collecting snow"
  using getURL_state [of env snow] by auto

lemma getURL_cached:
  "NextRecordTime (state snow) \<noteq> [] \<Longrightarrow> snd (getURL env snow) = snow"
  by (simp add: getURL_def getNextRecordTime_def getCheckpoint_cached Let_def)

lemma CollectData_frame:
  "config (snd (CollectData env snow)) = config snow"
  "writer (snd (CollectData env snow)) = writer snow"
  "checkpoint (snd (CollectData env snow)) = checkpoint snow"
  by (simp_all add: CollectData_def CompareAndSwapInt32_def Let_def case_prod_beta getURL_frame
      split: option.splits sum.splits)

lemma CollectData_cached:
  "NextRecordTime (state snow) \<noteq> [] \<Longrightarrow> state (snd (CollectData env snow)) = state snow"
  by (simp add: CollectData_def CompareAndSwapInt32_def Let_def case_prod_beta getURL_cached
      split: option.splits sum.splits)

lemma removeCollectedRecords_frame:
  "config (snd (removeCollectedRecords env snow page)) = config snow"
  "writer (snd (removeCollectedRecords env snow page)) = writer snow"
  "checkpoint (snd (removeCollectedRecords env snow page)) = checkpoint snow"
  by (simp_all add: removeCollectedRecords_def Let_def case_prod_beta getCheckpoint_frame
      split: option.splits sum.splits jvalue.splits bool.splits)

section \<open>The records returned for emission\<close>

text \<open>
  C3, as stated, fails in the cycle of C4: behind the checkpoint \<open>{10:00:01, [a]}\<close>, with
  a page size of two, the page \<open>[a, b]\<close> at \<open>10:00:01\<close> fires the tie-saturation guard, the
  checkpoint's timestamp does not parse, and \<open>removeCollectedRecords\<close> returns no record
  at all, where the page minus the collected records is \<open>[b]\<close>.
\<close>

theorem partition_lost_on_parse_failure:
  "LastTimeRecords (cursor ''10:00:01'' [''a'']) = [''a''] \<and>
   fst (removeCollectedRecords
          (poll_env [rec_of ''a'' ''10:00:01'', rec_of ''b'' ''10:00:01''])
          (reader_at (cursor ''10:00:01'' [''a'']) ''2'')
          [rec_of ''a'' ''10:00:01'', rec_of ''b'' ''10:00:01'']) = Inr ([], False) \<and>
   filter (\<lambda>v. is_record v \<and> \<not> already_collected ''t'' (cursor ''10:00:01'' [''a'']) v)
     [rec_of ''a'' ''10:00:01'', rec_of ''b'' ''10:00:01''] = [rec_of ''b'' ''10:00:01'']"
  by (simp add: removeCollectedRecords_def getCheckpoint_def strconv_Atoi_def Let_def
      doRemoveRecords_filter listed_def sample_defs key_defs value_defs)

text \<open>
  C3, amended. For every previous checkpoint with non-empty \<open>LastTimeRecords\<close> and every
  non-empty page, the records \<open>removeCollectedRecords\<close> returns for emission are exactly
  the records of the page minus those whose timestamp equals the checkpoint's
  \<open>NextRecordTime\<close> and whose ID appears in \<open>LastTimeRecords\<close>: every record with a
  different timestamp is kept, the order of the page is preserved, and no record listed
  in \<open>LastTimeRecords\<close> at the checkpoint's timestamp is returned, however often the step
  is run. The one exception is a cycle in which the tie-saturation guard fires and the
  checkpoint's timestamp does not parse: then no record is returned. A page shorter or
  longer than the page size is never looked at by the guard; on a page of exactly the
  page size the guard reads the first and the last element, which are taken to be
  records with comparable timestamps.
\<close>

theorem removeCollectedRecords_partition:
  assumes ck: "getCheckpoint env snow = (Some ck, snow1)"
    and ids: "LastTimeRecords ck \<noteq> []"
    and nonempty: "page \<noteq> []"
  shows
    "(int (length page) \<noteq>
        fst (strconv_Atoi (cfg_index (AdditionalConfig (config snow)) recordCountKey)) \<longrightarrow>
      fst (removeCollectedRecords env snow page) =
        Inr (filter (\<lambda>v. is_record v \<and>
               \<not> already_collected
                   (cfg_index (AdditionalConfig (config snow)) timestampFieldKey) ck v) page,
             False)) \<and>
     (int (length page) =
        fst (strconv_Atoi (cfg_index (AdditionalConfig (config snow)) recordCountKey)) \<and>
      hd page = JObj firstRecord \<and> last page = JObj lastRecord \<and>
      iface_eq
        (jindex firstRecord (cfg_index (AdditionalConfig (config snow)) timestampFieldKey))
        (jindex lastRecord (cfg_index (AdditionalConfig (config snow)) timestampFieldKey)) =
        Some same \<longrightarrow>
      fst (removeCollectedRecords env snow page) =
        Inr (if same \<and> isl (time_Parse env timeTemplate (NextRecordTime ck)) then ([], False)
             else (filter (\<lambda>v. is_record v \<and>
                     \<not> already_collected
                         (cfg_index (AdditionalConfig (config snow)) timestampFieldKey) ck v) page,
                   same))) \<and>
     (\<forall>v \<in> set (filter (\<lambda>v. is_record v \<and>
                    \<not> already_collected
                        (cfg_index (AdditionalConfig (config snow)) timestampFieldKey) ck v) page).
        \<not> already_collected (cfg_index (AdditionalConfig (config snow)) timestampFieldKey) ck v)"
proof -
  have cfg: "config snow1 = config snow"
    using getCheckpoint_frame(1) [of env snow] ck by simp
  have short: "int (length page) \<noteq>
        fst (strconv_Atoi (cfg_index (AdditionalConfig (config snow)) recordCountKey)) \<Longrightarrow>
      fst (removeCollectedRecords env snow page) =
        Inr (filter (\<lambda>v. is_record v \<and>
               \<not> already_collected
                   (cfg_index (AdditionalConfig (config snow)) timestampFieldKey) ck v) page,
             False)"
    using ids nonempty
    by (simp add: removeCollectedRecords_def ck cfg Let_def doRemoveRecords_filter
        listed_mkLastTimeRecords)
  have full: "int (length page) =
        fst (strconv_Atoi (cfg_index (AdditionalConfig (config snow)) recordCountKey)) \<and>
      hd page = JObj firstRecord \<and> last page = JObj lastRecord \<and>
      iface_eq
        (jindex firstRecord (cfg_index (AdditionalConfig (config snow)) timestampFieldKey))
        (jindex lastRecord (cfg_index (AdditionalConfig (config snow)) timestampFieldKey)) =
        Some same \<Longrightarrow>
      fst (removeCollectedRecords env snow page) =
        Inr (if same \<and> isl (time_Parse env timeTemplate (NextRecordTime ck)) then ([], False)
             else (filter (\<lambda>v. is_record v \<and>
                     \<not> already_collected
                         (cfg_index (AdditionalConfig (config snow)) timestampFieldKey) ck v) page,
                   same))"
    using ids nonempty
    by (cases same; cases "time_Parse env timeTemplate (NextRecordTime ck)")
       (simp_all add: removeCollectedRecords_def ck cfg Let_def doRemoveRecords_filter
        listed_mkLastTimeRecords)
  show ?thesis
    using short full by simp
qed

text \<open>
  The dedup scenario of the specification, below the page size, and the full page of two
  at the checkpoint's timestamp, where the guard fires and the timestamp parses.
\<close>

theorem removeCollectedRecords_partition_witness:
  "fst (removeCollectedRecords (poll_env dedup_page) (reader_at dedup_checkpoint ''100'')
          dedup_page) = Inr ([rec_of ''d'' ''10:00:02''], False) \<and>
   fst (removeCollectedRecords (poll_env tie_page)
          (reader_at (cursor ''2015-01-01 10:00:01'' [''a'']) ''2'') tie_page) =
     Inr ([rec_of ''b'' ''2015-01-01 10:00:01''], True)"
proof -
  let ?snow = "reader_at dedup_checkpoint ''100''"
  have ck: "getCheckpoint (poll_env dedup_page) ?snow = (Some dedup_checkpoint, ?snow)"
    by (simp add: getCheckpoint_def sample_defs)
  have ids: "LastTimeRecords dedup_checkpoint \<noteq> []"
    by (simp add: sample_defs)
  have nonempty: "dedup_page \<noteq> []"
    by (simp add: sample_defs)
  have short: "int (length dedup_page) \<noteq>
      fst (strconv_Atoi (cfg_index (AdditionalConfig (config ?snow)) recordCountKey))"
    by (simp add: strconv_Atoi_def sample_defs key_defs value_defs)
  have one: "fst (removeCollectedRecords (poll_env dedup_page) ?snow dedup_page) =
      Inr ([rec_of ''d'' ''10:00:02''], False)"
    using removeCollectedRecords_partition [OF ck ids nonempty] short
    by (simp add: sample_defs key_defs value_defs)
  let ?tie = "reader_at (cursor ''2015-01-01 10:00:01'' [''a'']) ''2''"
  let ?tck = "cursor ''2015-01-01 10:00:01'' [''a'']"
  have tck: "getCheckpoint (poll_env tie_page) ?tie = (Some ?tck, ?tie)"
    by (simp add: getCheckpoint_def sample_defs)
  have tids: "LastTimeRecords ?tck \<noteq> []"
    by (simp add: sample_defs)
  have tnonempty: "tie_page \<noteq> []"
    by (simp add: sample_defs)
  have full: "int (length tie_page) =
        fst (strconv_Atoi (cfg_index (AdditionalConfig (config ?tie)) recordCountKey)) \<and>
      hd tie_page = JObj [(''sys_id'', JStr ''a''), (''t'', JStr ''2015-01-01 10:00:01'')] \<and>
      last tie_page = JObj [(''sys_id'', JStr ''b''), (''t'', JStr ''2015-01-01 10:00:01'')] \<and>
      iface_eq
        (jindex [(''sys_id'', JStr ''a''), (''t'', JStr ''2015-01-01 10:00:01'')]
           (cfg_index (AdditionalConfig (config ?tie)) timestampFieldKey))
        (jindex [(''sys_id'', JStr ''b''), (''t'', JStr ''2015-01-01 10:00:01'')]
           (cfg_index (AdditionalConfig (config ?tie)) timestampFieldKey)) = Some True"
    by (simp add: strconv_Atoi_def sample_defs key_defs value_defs)
  have two: "fst (removeCollectedRecords (poll_env tie_page) ?tie tie_page) =
      Inr ([rec_of ''b'' ''2015-01-01 10:00:01''], True)"
    using removeCollectedRecords_partition [OF tck tids tnonempty,
        where firstRecord = "[(''sys_id'', JStr ''a''), (''t'', JStr ''2015-01-01 10:00:01'')]"
        and lastRecord = "[(''sys_id'', JStr ''b''), (''t'', JStr ''2015-01-01 10:00:01'')]"
        and same = True] full
    by (simp add: sample_defs key_defs value_defs)
  show ?thesis
    using one two by simp
qed

section \<open>Tie saturation\<close>

text \<open>
  C1, as stated, fails: with a checkpoint that lists no IDs the guard is never reached.
  The page has exactly \<open>RecordCount = 2\<close> records, both at one timestamp, and
  \<open>removeCollectedRecords\<close> hands the page back with \<open>refreshed = false\<close> and the state
  untouched.
\<close>

theorem tie_saturation_needs_ids:
  "int (length tie_page) = fst (strconv_Atoi ''2'') \<and>
   hd tie_page = rec_of ''a'' ''2015-01-01 10:00:01'' \<and>
   last tie_page = rec_of ''b'' ''2015-01-01 10:00:01'' \<and>
   removeCollectedRecords (poll_env tie_page)
     (reader_at (cursor ''2015-01-01 10:00:01'' []) ''2'') tie_page =
   (Inr (tie_page, False), reader_at (cursor ''2015-01-01 10:00:01'' []) ''2'')"
  by (simp add: removeCollectedRecords_def getCheckpoint_def strconv_Atoi_def Let_def
      sample_defs)

text \<open>
  Two more inputs at which the guard does fire and the cursor still does not end one
  second past the page's timestamp: a checkpoint timestamp the template does not parse
  (nothing is returned, nothing changes), and a page that sits at a later timestamp than
  the checkpoint (the cursor moves one second past the checkpoint's timestamp).
\<close>

lemma tie_saturation_unparsed:
  "removeCollectedRecords (poll_env [rec_of ''a'' ''10:00:01'', rec_of ''b'' ''10:00:01''])
     (reader_at (cursor ''10:00:01'' [''a'']) ''2'')
     [rec_of ''a'' ''10:00:01'', rec_of ''b'' ''10:00:01''] =
   (Inr ([], False), reader_at (cursor ''10:00:01'' [''a'']) ''2'')"
  by (simp add: removeCollectedRecords_def getCheckpoint_def strconv_Atoi_def Let_def
      sample_defs key_defs value_defs doRemoveRecords_def)

lemma tie_saturation_later_page:
  "removeCollectedRecords
     (poll_env [rec_of ''c'' ''2015-01-01 10:00:07'', rec_of ''d'' ''2015-01-01 10:00:07''])
     (reader_at (cursor ''2015-01-01 10:00:01'' [''a'']) ''2'')
     [rec_of ''c'' ''2015-01-01 10:00:07'', rec_of ''d'' ''2015-01-01 10:00:07''] =
   (Inr ([rec_of ''c'' ''2015-01-01 10:00:07'', rec_of ''d'' ''2015-01-01 10:00:07''], True),
    reader_at (cursor ''2015-01-01 10:00:02'' []) ''2'')"
  by (simp add: removeCollectedRecords_def getCheckpoint_def strconv_Atoi_def Let_def
      sample_defs key_defs value_defs doRemoveRecords_def)

text \<open>
  C1, amended. For every previous checkpoint that lists at least one ID and whose
  \<open>NextRecordTime\<close> \<open>T\<close> parses under the template, and every page whose length equals the
  configured \<open>RecordCount\<close> and whose first and last records both carry the timestamp
  \<open>T\<close>: \<open>removeCollectedRecords\<close> returns the deduplicated records with
  \<open>refreshed = true\<close>, sets the in-memory \<open>NextRecordTime\<close> to \<open>T\<close> plus one second,
  rendered with the template, and clears \<open>LastTimeRecords\<close>.
\<close>

theorem removeCollectedRecords_tie_saturation:
  assumes ck: "getCheckpoint env snow = (Some ck, snow1)"
    and ids: "LastTimeRecords ck \<noteq> []"
    and full: "int (length page) =
               fst (strconv_Atoi (cfg_index (AdditionalConfig (config snow)) recordCountKey))"
    and nonempty: "page \<noteq> []"
    and first: "hd page = JObj firstRecord"
    and lst: "last page = JObj lastRecord"
    and t1: "jindex firstRecord (cfg_index (AdditionalConfig (config snow)) timestampFieldKey) =
             JStr (NextRecordTime ck)"
    and t2: "jindex lastRecord (cfg_index (AdditionalConfig (config snow)) timestampFieldKey) =
             JStr (NextRecordTime ck)"
    and parse: "time_Parse env timeTemplate (NextRecordTime ck) = Inr t"
  shows "removeCollectedRecords env snow page =
           (Inr (filter (\<lambda>v. is_record v \<and>
                    \<not> already_collected
                        (cfg_index (AdditionalConfig (config snow)) timestampFieldKey) ck v) page,
                 True),
            snow1\<lparr>state := (state snow1)
               \<lparr>NextRecordTime := time_Format env (time_Add env t time_Second) timeTemplate,
                LastTimeRecords := []\<rparr>\<rparr>)"
proof -
  have cfg: "config snow1 = config snow"
    using getCheckpoint_frame(1) [of env snow] ck by simp
  show ?thesis
    using ids full nonempty first lst t1 t2 parse
    by (simp add: removeCollectedRecords_def ck cfg Let_def doRemoveRecords_filter
        listed_mkLastTimeRecords)
qed

theorem removeCollectedRecords_tie_saturation_witness:
  "removeCollectedRecords (poll_env tie_page)
     (reader_at (cursor ''2015-01-01 10:00:01'' [''a'']) ''2'') tie_page =
   (Inr ([rec_of ''b'' ''2015-01-01 10:00:01''], True),
    reader_at (cursor ''2015-01-01 10:00:02'' []) ''2'')"
proof -
  let ?snow = "reader_at (cursor ''2015-01-01 10:00:01'' [''a'']) ''2''"
  let ?ck = "cursor ''2015-01-01 10:00:01'' [''a'']"
  have ck: "getCheckpoint (poll_env tie_page) ?snow = (Some ?ck, ?snow)"
    by (simp add: getCheckpoint_def sample_defs)
  have ids: "LastTimeRecords ?ck \<noteq> []"
    by (simp add: sample_defs)
  have full: "int (length tie_page) =
      fst (strconv_Atoi (cfg_index (AdditionalConfig (config ?snow)) recordCountKey))"
    by (simp add: strconv_Atoi_def sample_defs key_defs value_defs)
  have nonempty: "tie_page \<noteq> []"
    by (simp add: sample_defs)
  have first: "hd tie_page = JObj [(''sys_id'', JStr ''a''), (''t'', JStr ''2015-01-01 10:00:01'')]"
    by (simp add: sample_defs)
  have lst: "last tie_page = JObj [(''sys_id'', JStr ''b''), (''t'', JStr ''2015-01-01 10:00:01'')]"
    by (simp add: sample_defs)
  have t1: "jindex [(''sys_id'', JStr ''a''), (''t'', JStr ''2015-01-01 10:00:01'')]
      (cfg_index (AdditionalConfig (config ?snow)) timestampFieldKey) = JStr (NextRecordTime ?ck)"
    by (simp add: sample_defs key_defs value_defs)
  have t2: "jindex [(''sys_id'', JStr ''b''), (''t'', JStr ''2015-01-01 10:00:01'')]
      (cfg_index (AdditionalConfig (config ?snow)) timestampFieldKey) = JStr (NextRecordTime ?ck)"
    by (simp add: sample_defs key_defs value_defs)
  have parse: "time_Parse (poll_env tie_page) timeTemplate (NextRecordTime ?ck) =
      Inr 1420106401000000000"
    by (simp add: sample_defs)
  show ?thesis
    using removeCollectedRecords_tie_saturation [OF ck ids full nonempty first lst t1 t2 parse]
    by (simp add: sample_defs key_defs value_defs)
qed


section \<open>A checkpoint timestamp that does not parse\<close>

text \<open>
  C4, as stated, fails: the reader holds a checkpoint whose timestamp the template does
  not parse, the page fills the page size with records at one timestamp, so the guard
  fires and the parse fails. Nothing is emitted and no checkpoint is written, but
  \<open>IndexData\<close> returns nil, not an error.
\<close>

theorem parse_failure_returns_nil:
  "fst (removeCollectedRecords
          (poll_env [rec_of ''a'' ''10:00:01'', rec_of ''b'' ''10:00:01''])
          (reader_at (cursor ''10:00:01'' [''a'']) ''2'')
          [rec_of ''a'' ''10:00:01'', rec_of ''b'' ''10:00:01'']) = Inr ([], False) \<and>
   time_Parse (poll_env [rec_of ''a'' ''10:00:01'', rec_of ''b'' ''10:00:01'']) timeTemplate
     ''10:00:01'' = Inl (Error ''cannot parse'') \<and>
   fst (IndexData (poll_env [rec_of ''a'' ''10:00:01'', rec_of ''b'' ''10:00:01''])
          (reader_at (cursor ''10:00:01'' [''a'']) ''2'')) = Inr None"
  by (simp add: IndexData_def CollectData_def CompareAndSwapInt32_def getURL_def
      getNextRecordTime_def indexRecords_def removeCollectedRecords_def getCheckpoint_def
      strconv_Atoi_def doRemoveRecords_def Let_def sample_defs key_defs value_defs)

text \<open>
  C4, amended. For every poll cycle in which the tie-saturation guard triggers and the
  checkpoint timestamp fails to parse against the fixed template, the cycle hands
  nothing to the writer and writes no checkpoint, and \<open>IndexData\<close> returns nil: the
  failure is logged and reaches the caller as an empty cycle, not as an error.
\<close>

theorem IndexData_parse_failure:
  assumes fetch: "CollectData env snow = ((Some body, None), snow1)"
    and json: "base_ToJsonObject env body = Inr jobj"
    and recs: "jindex jobj ''records'' = JArr page"
    and ck: "getCheckpoint env snow1 = (Some ck, snow2)"
    and ids: "LastTimeRecords ck \<noteq> []"
    and nonempty: "page \<noteq> []"
    and full: "int (length page) =
               fst (strconv_Atoi (cfg_index (AdditionalConfig (config snow)) recordCountKey))"
    and first: "hd page = JObj firstRecord"
    and lst: "last page = JObj lastRecord"
    and same: "iface_eq
                 (jindex firstRecord (cfg_index (AdditionalConfig (config snow)) timestampFieldKey))
                 (jindex lastRecord (cfg_index (AdditionalConfig (config snow)) timestampFieldKey)) =
               Some True"
    and parse: "time_Parse env timeTemplate (NextRecordTime ck) = Inl err"
  shows "IndexData env snow = (Inr None, snow2) \<and> writer snow2 = writer snow \<and>
         checkpoint snow2 = checkpoint snow"
proof -
  have cfg1: "config snow1 = config snow"
    using CollectData_frame(1) [of env snow] fetch by simp
  have cfg2: "config snow2 = config snow1"
    using getCheckpoint_frame(1) [of env snow1] ck by simp
  have rm: "removeCollectedRecords env snow1 page = (Inr ([], False), snow2)"
    using ids nonempty full first lst same parse
    by (simp add: removeCollectedRecords_def ck cfg1 cfg2 Let_def)
  have run: "IndexData env snow = (Inr None, snow2)"
    by (simp add: IndexData_def fetch json recs indexRecords_def rm)
  have w: "writer snow2 = writer snow"
    using CollectData_frame(2) [of env snow] getCheckpoint_frame(2) [of env snow1] fetch ck
    by simp
  have c: "checkpoint snow2 = checkpoint snow"
    using CollectData_frame(3) [of env snow] getCheckpoint_frame(3) [of env snow1] fetch ck
    by simp
  show ?thesis using run w c by simp
qed

text \<open>The URL the sample reader polls when its cursor is the unparsed \<open>10:00:01\<close>.\<close>

definition unparsed_url :: string where
  "unparsed_url =
     ''https://snow/incident.do?JSONv2&sysparm_query=t>=10:00:01^ORDERBYt&sysparm_record_count=2''"

theorem IndexData_parse_failure_witness:
  "IndexData (poll_env [rec_of ''a'' ''10:00:01'', rec_of ''b'' ''10:00:01''])
     (reader_at (cursor ''10:00:01'' [''a'']) ''2'') =
   (Inr None, (reader_at (cursor ''10:00:01'' [''a'']) ''2'')\<lparr>http_client := [unparsed_url]\<rparr>) \<and>
   writer ((reader_at (cursor ''10:00:01'' [''a'']) ''2'')\<lparr>http_client := [unparsed_url]\<rparr>) = [] \<and>
   checkpoint ((reader_at (cursor ''10:00:01'' [''a'']) ''2'')\<lparr>http_client := [unparsed_url]\<rparr>) = None"
proof -
  let ?page = "[rec_of ''a'' ''10:00:01'', rec_of ''b'' ''10:00:01'']"
  let ?env = "poll_env ?page"
  let ?snow = "reader_at (cursor ''10:00:01'' [''a'']) ''2''"
  let ?snow1 = "?snow\<lparr>http_client := [unparsed_url]\<rparr>"
  let ?ck = "cursor ''10:00:01'' [''a'']"
  have fetch: "CollectData ?env ?snow = ((Some ''body'', None), ?snow1)"
    by (simp add: CollectData_def CompareAndSwapInt32_def getURL_def getNextRecordTime_def
        getCheckpoint_def Let_def unparsed_url_def sample_defs key_defs value_defs)
  have json: "base_ToJsonObject ?env ''body'' = Inr [(''records'', JArr ?page)]"
    by (simp add: sample_defs)
  have recs: "jindex [(''records'', JArr ?page)] ''records'' = JArr ?page"
    by (simp add: jindex_def)
  have ck: "getCheckpoint ?env ?snow1 = (Some ?ck, ?snow1)"
    by (simp add: getCheckpoint_def sample_defs)
  have ids: "LastTimeRecords ?ck \<noteq> []"
    by (simp add: sample_defs)
  have nonempty: "?page \<noteq> []"
    by simp
  have full: "int (length ?page) =
      fst (strconv_Atoi (cfg_index (AdditionalConfig (config ?snow)) recordCountKey))"
    by (simp add: strconv_Atoi_def sample_defs key_defs value_defs)
  have first: "hd ?page = JObj [(''sys_id'', JStr ''a''), (''t'', JStr ''10:00:01'')]"
    by (simp add: sample_defs)
  have lst: "last ?page = JObj [(''sys_id'', JStr ''b''), (''t'', JStr ''10:00:01'')]"
    by (simp add: sample_defs)
  have same: "iface_eq
      (jindex [(''sys_id'', JStr ''a''), (''t'', JStr ''10:00:01'')]
         (cfg_index (AdditionalConfig (config ?snow)) timestampFieldKey))
      (jindex [(''sys_id'', JStr ''b''), (''t'', JStr ''10:00:01'')]
         (cfg_index (AdditionalConfig (config ?snow)) timestampFieldKey)) = Some True"
    by (simp add: sample_defs key_defs value_defs)
  have parse: "time_Parse ?env timeTemplate (NextRecordTime ?ck) = Inl (Error ''cannot parse'')"
    by (simp add: sample_defs)
  show ?thesis
    using IndexData_parse_failure [OF fetch json recs ck ids nonempty full first lst same parse]
    by (simp add: reader_at_def)
qed


section \<open>A checkpoint write that fails\<close>

lemma writeCheckpoint_failing:
  assumes "\<forall>c d. checkpoint_WriteCheckpoint env c d \<noteq> None"
  shows "snd (writeCheckpoint env snow records refreshed) = snow"
  by (simp add: writeCheckpoint_def assms [rule_format] split: option.splits sum.splits)

lemma indexRecords_failing:
  assumes "\<forall>c d. checkpoint_WriteCheckpoint env c d \<noteq> None"
  shows "checkpoint (snd (indexRecords env snow page)) = checkpoint snow"
    and "state (snd (indexRecords env snow page)) =
         state (snd (removeCollectedRecords env snow page))"
  using assms
  by (auto simp add: indexRecords_def Let_def writeCheckpoint_failing
      removeCollectedRecords_frame(3) [of env snow page, symmetric]
      split: prod.splits option.splits sum.splits)

lemma IndexData_failing_checkpoint:
  assumes "\<forall>c d. checkpoint_WriteCheckpoint env c d \<noteq> None"
  shows "checkpoint (snd (IndexData env snow)) = checkpoint snow"
  by (simp add: IndexData_def case_prod_beta indexRecords_failing(1) [OF assms]
      CollectData_frame getURL_frame
      split: option.splits sum.splits jvalue.splits)

lemma removeCollectedRecords_cached_state:
  assumes "NextRecordTime (state snow) \<noteq> []"
  shows "state (snd (removeCollectedRecords env snow page)) =
         (if guard_fires snow page then
            (case time_Parse env timeTemplate (NextRecordTime (state snow)) of
               Inl err \<Rightarrow> state snow
             | Inr t \<Rightarrow>
                 (state snow)
                   \<lparr>NextRecordTime := time_Format env (time_Add env t time_Second) timeTemplate,
                    LastTimeRecords := []\<rparr>)
          else state snow)"
  using assms
  by (simp add: removeCollectedRecords_def Let_def getCheckpoint_cached guard_fires_def
      split: option.splits sum.splits jvalue.splits bool.splits)

lemma guard_fires_cong:
  "config snow1 = config snow \<Longrightarrow> state snow1 = state snow \<Longrightarrow>
   guard_fires snow1 page = guard_fires snow page"
  by (simp add: guard_fires_def split: jvalue.splits)

lemma IndexData_failing_state_exact:
  assumes fail: "\<forall>c d. checkpoint_WriteCheckpoint env c d \<noteq> None"
    and cached: "NextRecordTime (state snow) \<noteq> []"
  shows "state (snd (IndexData env snow)) = state_after_failed_write env snow"
proof -
  let ?snow1 = "snd (CollectData env snow)"
  have st1: "state ?snow1 = state snow"
    using cached by (rule CollectData_cached)
  have cfg1: "config ?snow1 = config snow"
    by (rule CollectData_frame(1))
  have cached1: "NextRecordTime (state ?snow1) \<noteq> []"
    using cached st1 by simp
  have g: "guard_fires ?snow1 page = guard_fires snow page" for page
    using cfg1 st1 by (rule guard_fires_cong)
  have rm: "state (snd (indexRecords env ?snow1 page)) =
         (if guard_fires snow page then
            (case time_Parse env timeTemplate (NextRecordTime (state snow)) of
               Inl err \<Rightarrow> state snow
             | Inr t \<Rightarrow>
                 (state snow)
                   \<lparr>NextRecordTime := time_Format env (time_Add env t time_Second) timeTemplate,
                    LastTimeRecords := []\<rparr>)
          else state snow)" for page
    using removeCollectedRecords_cached_state [OF cached1, of env page]
    by (simp add: indexRecords_failing(2) [OF fail] g st1 split: sum.splits)
  have url: "snd (getURL env ?snow1) = ?snow1"
    using cached1 by (rule getURL_cached)
  show ?thesis
    using st1 url
    by (simp add: IndexData_def state_after_failed_write_def fetched_page_def case_prod_beta rm
        split: option.splits sum.splits jvalue.splits)
qed

text \<open>
  C5, as stated, fails in a cycle in which the tie-saturation guard fired: the page
  fills the page size at the checkpoint's timestamp, the cursor is advanced in memory
  before anything is written, and when the checkpointer then refuses the write
  \<open>IndexData\<close> returns the error with the in-memory state already moved to the next
  second. The stored blob is untouched.
\<close>

theorem write_failure_after_refresh:
  "fst (IndexData (store_down_env tie_page)
          (reader_at (cursor ''2015-01-01 10:00:01'' [''a'']) ''2'')) =
     Inr (Some (Error ''store down'')) \<and>
   state (reader_at (cursor ''2015-01-01 10:00:01'' [''a'']) ''2'') =
     cursor ''2015-01-01 10:00:01'' [''a''] \<and>
   state (snd (IndexData (store_down_env tie_page)
                 (reader_at (cursor ''2015-01-01 10:00:01'' [''a'']) ''2''))) =
     cursor ''2015-01-01 10:00:02'' [] \<and>
   checkpoint (snd (IndexData (store_down_env tie_page)
                      (reader_at (cursor ''2015-01-01 10:00:01'' [''a'']) ''2''))) = None"
  by (simp add: IndexData_def CollectData_def CompareAndSwapInt32_def getURL_def
      getNextRecordTime_def indexRecords_def removeCollectedRecords_def getCheckpoint_def
      writeCheckpoint_def currentState_of_def base_NewData_def
      strconv_Atoi_def doRemoveRecords_def Let_def sample_defs key_defs value_defs)

text \<open>
  C5, amended. For every poll cycle in which the durable checkpoint write fails:
  \<open>writeCheckpoint\<close> returns the error and leaves the stored blob and the in-memory state
  as it found them; over the whole cycle the stored blob is unchanged; and a cached
  in-memory state is unchanged over the cycle unless the tie-saturation guard fired in
  it, in which case the cursor already advanced by one second, with \<open>LastTimeRecords\<close>
  cleared, stays in memory. (The guard fires on the fetched page when the cached state
  lists IDs, the page has exactly \<open>RecordCount\<close> records and its first and last
  timestamps are equal; it advances the cursor when the cursor parses.)
\<close>

theorem checkpoint_write_failure:
  "(records \<noteq> [] \<and>
    currentState_of (cfg_index (AdditionalConfig (config snow)) timestampFieldKey) records =
      Inr currentState \<and>
    json_Marshal env currentState = Inr data \<and>
    checkpoint_WriteCheckpoint env (AdditionalConfig (config snow)) data = Some err \<longrightarrow>
      writeCheckpoint env snow records refreshed = (Inr (Some err), snow)) \<and>
   ((\<forall>c d. checkpoint_WriteCheckpoint env c d \<noteq> None) \<longrightarrow>
      checkpoint (snd (IndexData env snow)) = checkpoint snow \<and>
      (NextRecordTime (state snow) \<noteq> [] \<longrightarrow>
         state (snd (IndexData env snow)) = state_after_failed_write env snow \<and>
         ((\<forall>page. fetched_page env snow = Some page \<longrightarrow> \<not> guard_fires snow page) \<longrightarrow>
            state (snd (IndexData env snow)) = state snow)))"
proof (intro conjI impI)
  assume "records \<noteq> [] \<and>
    currentState_of (cfg_index (AdditionalConfig (config snow)) timestampFieldKey) records =
      Inr currentState \<and>
    json_Marshal env currentState = Inr data \<and>
    checkpoint_WriteCheckpoint env (AdditionalConfig (config snow)) data = Some err"
  then show "writeCheckpoint env snow records refreshed = (Inr (Some err), snow)"
    by (simp add: writeCheckpoint_def)
next
  assume "\<forall>c d. checkpoint_WriteCheckpoint env c d \<noteq> None"
  then show "checkpoint (snd (IndexData env snow)) = checkpoint snow"
    by (rule IndexData_failing_checkpoint)
next
  assume "\<forall>c d. checkpoint_WriteCheckpoint env c d \<noteq> None"
    and "NextRecordTime (state snow) \<noteq> []"
  then show "state (snd (IndexData env snow)) = state_after_failed_write env snow"
    by (rule IndexData_failing_state_exact)
next
  assume fail: "\<forall>c d. checkpoint_WriteCheckpoint env c d \<noteq> None"
    and cached: "NextRecordTime (state snow) \<noteq> []"
    and quiet: "\<forall>page. fetched_page env snow = Some page \<longrightarrow> \<not> guard_fires snow page"
  have "state_after_failed_write env snow = state snow"
    using quiet by (simp add: state_after_failed_write_def split: option.splits)
  then show "state (snd (IndexData env snow)) = state snow"
    using IndexData_failing_state_exact [OF fail cached] by simp
qed

text \<open>
  A cycle at a cursor that parses, with a page of two records below the page size of
  100: the guard does not fire, the write of the new checkpoint fails, and the reader is
  left with the old cursor and its IDs.
\<close>

theorem checkpoint_write_failure_witness:
  "writeCheckpoint (store_down_env tie_page)
     (reader_at (cursor ''2015-01-01 10:00:01'' [''a'']) ''100'')
     [rec_of ''b'' ''2015-01-01 10:00:01''] False =
     (Inr (Some (Error ''store down'')),
      reader_at (cursor ''2015-01-01 10:00:01'' [''a'']) ''100'') \<and>
   fetched_page (store_down_env tie_page)
     (reader_at (cursor ''2015-01-01 10:00:01'' [''a'']) ''100'') = Some tie_page \<and>
   \<not> guard_fires (reader_at (cursor ''2015-01-01 10:00:01'' [''a'']) ''100'') tie_page \<and>
   checkpoint (snd (IndexData (store_down_env tie_page)
                      (reader_at (cursor ''2015-01-01 10:00:01'' [''a'']) ''100''))) = None \<and>
   state (snd (IndexData (store_down_env tie_page)
                 (reader_at (cursor ''2015-01-01 10:00:01'' [''a'']) ''100''))) =
     cursor ''2015-01-01 10:00:01'' [''a'']"
proof -
  let ?env = "store_down_env tie_page"
  let ?snow = "reader_at (cursor ''2015-01-01 10:00:01'' [''a'']) ''100''"
  have a: "[rec_of ''b'' ''2015-01-01 10:00:01''] \<noteq> [] \<and>
    currentState_of (cfg_index (AdditionalConfig (config ?snow)) timestampFieldKey)
      [rec_of ''b'' ''2015-01-01 10:00:01''] = Inr (cursor ''2015-01-01 10:00:01'' [''b'']) \<and>
    json_Marshal ?env (cursor ''2015-01-01 10:00:01'' [''b'']) = Inr ''2015-01-01 10:00:01|b'' \<and>
    checkpoint_WriteCheckpoint ?env (AdditionalConfig (config ?snow)) ''2015-01-01 10:00:01|b'' =
      Some (Error ''store down'')"
    by (simp add: currentState_of_def sample_defs key_defs value_defs)
  have fail: "\<forall>c d. checkpoint_WriteCheckpoint ?env c d \<noteq> None"
    by (simp add: sample_defs)
  have cached: "NextRecordTime (state ?snow) \<noteq> []"
    by (simp add: sample_defs)
  have page: "fetched_page ?env ?snow = Some tie_page"
    by (simp add: fetched_page_def CollectData_def CompareAndSwapInt32_def getURL_def
        getNextRecordTime_def getCheckpoint_def Let_def sample_defs key_defs value_defs)
  have no_guard: "\<not> guard_fires ?snow tie_page"
    by (simp add: guard_fires_def strconv_Atoi_def sample_defs key_defs value_defs)
  have quiet: "\<forall>page. fetched_page ?env ?snow = Some page \<longrightarrow> \<not> guard_fires ?snow page"
    using page no_guard by simp
  note inst = checkpoint_write_failure [of "[rec_of ''b'' ''2015-01-01 10:00:01'']" ?snow
      "cursor ''2015-01-01 10:00:01'' [''b'']" ?env "''2015-01-01 10:00:01|b''"
      "Error ''store down''" False]
  have w: "writeCheckpoint ?env ?snow [rec_of ''b'' ''2015-01-01 10:00:01''] False =
      (Inr (Some (Error ''store down'')), ?snow)"
    using inst a by blast
  have c: "checkpoint (snd (IndexData ?env ?snow)) = checkpoint ?snow"
    using inst fail by blast
  have s: "state (snd (IndexData ?env ?snow)) = state ?snow"
    using inst fail cached quiet by blast
  show ?thesis
    using w c s page no_guard by (simp add: reader_at_def)
qed

section \<open>The at-most-one-poll guard\<close>

text \<open>
  C6. At-most-one-poll no-op: when \<open>CollectData\<close> is invoked while the collecting guard
  is held, it sends no request and returns nil data and a nil error, leaving the guard
  as it is; a request is sent only by an invocation that found the guard free and won
  the swap; and that invocation leaves the guard released when it returns, having sent
  exactly one request for the poll URL when the request could be built.
\<close>

theorem CollectData_guard:
  "(collecting snow \<noteq> 0 \<longrightarrow>
      fst (CollectData env snow) = (None, None) \<and>
      http_client (snd (CollectData env snow)) = http_client snow \<and>
      collecting (snd (CollectData env snow)) = collecting snow) \<and>
   (http_client (snd (CollectData env snow)) \<noteq> http_client snow \<longrightarrow> collecting snow = 0) \<and>
   (collecting snow = 0 \<longrightarrow>
      collecting (snd (CollectData env snow)) = 0 \<and>
      (http_NewRequest env (fst (getURL env (snow\<lparr>collecting := 1\<rparr>))) = None \<longrightarrow>
         http_client (snd (CollectData env snow)) =
         http_client snow @ [fst (getURL env (snow\<lparr>collecting := 1\<rparr>))]))"
  by (simp add: CollectData_def CompareAndSwapInt32_def Let_def case_prod_beta getURL_frame
      split: option.splits sum.splits)

text \<open>The poll URL of the sample reader at the cursor \<open>10:00:01\<close> and page size 100.\<close>

definition sample_url :: string where
  "sample_url =
     ''https://snow/incident.do?JSONv2&sysparm_query=t>=10:00:01^ORDERBYt&sysparm_record_count=100''"

theorem CollectData_guard_witness:
  "fst (CollectData (poll_env dedup_page) ((reader_at dedup_checkpoint ''100'')\<lparr>collecting := 1\<rparr>)) =
     (None, None) \<and>
   http_client (snd (CollectData (poll_env dedup_page)
                       ((reader_at dedup_checkpoint ''100'')\<lparr>collecting := 1\<rparr>))) = [] \<and>
   collecting (snd (CollectData (poll_env dedup_page)
                      ((reader_at dedup_checkpoint ''100'')\<lparr>collecting := 1\<rparr>))) = 1 \<and>
   collecting (snd (CollectData (poll_env dedup_page) (reader_at dedup_checkpoint ''100''))) = 0 \<and>
   http_client (snd (CollectData (poll_env dedup_page) (reader_at dedup_checkpoint ''100''))) =
     [sample_url]"
proof -
  let ?env = "poll_env dedup_page"
  let ?free = "reader_at dedup_checkpoint ''100''"
  let ?held = "?free\<lparr>collecting := 1\<rparr>"
  have held: "collecting ?held \<noteq> 0"
    by simp
  have free: "collecting ?free = 0"
    by (simp add: reader_at_def)
  have url: "fst (getURL ?env (?free\<lparr>collecting := 1\<rparr>)) = sample_url"
    by (simp add: getURL_def getNextRecordTime_def getCheckpoint_def Let_def sample_url_def
        sample_defs key_defs value_defs)
  have req: "http_NewRequest ?env (fst (getURL ?env (?free\<lparr>collecting := 1\<rparr>))) = None"
    by (simp add: poll_env_def)
  have a: "fst (CollectData ?env ?held) = (None, None) \<and>
      http_client (snd (CollectData ?env ?held)) = http_client ?held \<and>
      collecting (snd (CollectData ?env ?held)) = collecting ?held"
    using CollectData_guard [of ?held ?env] held by blast
  have b: "collecting (snd (CollectData ?env ?free)) = 0 \<and>
      http_client (snd (CollectData ?env ?free)) =
      http_client ?free @ [fst (getURL ?env (?free\<lparr>collecting := 1\<rparr>))]"
    using CollectData_guard [of ?free ?env] free req by blast
  show ?thesis
    using a b url by (simp add: reader_at_def)
qed

section \<open>What the constructor validates\<close>

lemma parse_uint_None: "(parse_uint ds n = None) = (\<not> list_all is_digit ds)"
  by (induction ds arbitrary: n) (auto simp add: is_digit_def Let_def)

lemma Atoi_not_numeric:
  assumes "\<not> numeric s"
  shows "strconv_Atoi s = (0, Some (Error ''invalid syntax''))"
proof -
  define digits where
    "digits = (if s \<noteq> [] \<and> (hd s = CHR ''+'' \<or> hd s = CHR ''-'') then tl s else s)"
  have "digits = [] \<or> parse_uint digits 0 = None"
    using assms by (simp add: numeric_def digits_def [symmetric] parse_uint_None)
  then show ?thesis
    unfolding strconv_Atoi_def digits_def [symmetric] Let_def by auto
qed

lemma cfg_index_missing_not_numeric:
  "m k = None \<Longrightarrow> \<not> numeric (cfg_index m k)"
  by (simp add: cfg_index_def numeric_def)

lemma guard_never_triggers:
  assumes "fst (strconv_Atoi (cfg_index (AdditionalConfig (config snow)) recordCountKey)) = 0"
  shows "(\<exists>recs. fst (removeCollectedRecords env snow page) = Inr (recs, False)) \<and>
         snd (removeCollectedRecords env snow page) = snd (getCheckpoint env snow)"
  using assms
  by (simp add: removeCollectedRecords_def Let_def case_prod_beta getCheckpoint_frame
      split: option.splits)

lemma first_missing_None:
  "(first_missing m keys = None) = (\<forall>k \<in> set keys. m k \<noteq> None)"
  by (induction keys) auto

lemma NewSnowDataReader_None:
  "(NewSnowDataReader cfg w c = None) =
   (AdditionalConfig cfg endpointKey = None \<or> AdditionalConfig cfg timestampFieldKey = None \<or>
    AdditionalConfig cfg nextRecordTimeKey = None)"
proof -
  have "(NewSnowDataReader cfg w c = None) =
        (first_missing (AdditionalConfig cfg) acquiredConfigs \<noteq> None)"
    by (simp add: NewSnowDataReader_def split: option.splits)
  then show ?thesis
    by (auto simp add: first_missing_None acquiredConfigs_def)
qed

lemma getURL_record_count:
  "\<exists>pre. fst (getURL env snow) =
     pre @ ''&sysparm_record_count='' @ cfg_index (AdditionalConfig (config snow)) recordCountKey"
proof -
  have c: "config (snd (getNextRecordTime env snow)) = config snow"
    using getNextRecordTime_state [of env snow] by auto
  show ?thesis
    unfolding getURL_def Let_def case_prod_beta fst_conv c
    by (metis append.assoc)
qed

text \<open>
  C10. \<open>NewSnowDataReader\<close> returns a nil reader if and only if one of the keys
  \<open>Endpoint\<close>, \<open>TimestampField\<close>, \<open>NextRecordTime\<close> is absent from the additional
  configuration, so \<open>RecordCount\<close> is not validated at construction. It is consumed
  all the same: the poll URL ends with its value, and the tie-saturation guard compares
  the page length with it, where a missing or non-numeric \<open>RecordCount\<close> counts as page
  size 0 and the guard then never triggers: \<open>removeCollectedRecords\<close> returns with
  \<open>refreshed = false\<close> and changes nothing beyond the checkpoint lookup.
\<close>

theorem NewSnowDataReader_validation:
  "(NewSnowDataReader cfg w c = None) =
     (AdditionalConfig cfg endpointKey = None \<or> AdditionalConfig cfg timestampFieldKey = None \<or>
      AdditionalConfig cfg nextRecordTimeKey = None) \<and>
   (\<exists>pre. fst (getURL env snow) =
      pre @ ''&sysparm_record_count='' @ cfg_index (AdditionalConfig (config snow)) recordCountKey) \<and>
   (AdditionalConfig (config snow) recordCountKey = None \<or>
    \<not> numeric (cfg_index (AdditionalConfig (config snow)) recordCountKey) \<longrightarrow>
      fst (strconv_Atoi (cfg_index (AdditionalConfig (config snow)) recordCountKey)) = 0 \<and>
      (\<exists>recs. fst (removeCollectedRecords env snow page) = Inr (recs, False)) \<and>
      snd (removeCollectedRecords env snow page) = snd (getCheckpoint env snow))"
proof (intro conjI impI)
  show "(NewSnowDataReader cfg w c = None) =
     (AdditionalConfig cfg endpointKey = None \<or> AdditionalConfig cfg timestampFieldKey = None \<or>
      AdditionalConfig cfg nextRecordTimeKey = None)"
    by (rule NewSnowDataReader_None)
  show "\<exists>pre. fst (getURL env snow) =
      pre @ ''&sysparm_record_count='' @ cfg_index (AdditionalConfig (config snow)) recordCountKey"
    by (rule getURL_record_count)
next
  assume "AdditionalConfig (config snow) recordCountKey = None \<or>
    \<not> numeric (cfg_index (AdditionalConfig (config snow)) recordCountKey)"
  then have "\<not> numeric (cfg_index (AdditionalConfig (config snow)) recordCountKey)"
    using cfg_index_missing_not_numeric by blast
  then have zero: "fst (strconv_Atoi (cfg_index (AdditionalConfig (config snow)) recordCountKey)) = 0"
    by (simp add: Atoi_not_numeric)
  show "fst (strconv_Atoi (cfg_index (AdditionalConfig (config snow)) recordCountKey)) = 0"
    by (rule zero)
  show "\<exists>recs. fst (removeCollectedRecords env snow page) = Inr (recs, False)"
    using guard_never_triggers [OF zero] by blast
  show "snd (removeCollectedRecords env snow page) = snd (getCheckpoint env snow)"
    using guard_never_triggers [OF zero] by blast
qed

text \<open>
  A configuration with the three validated keys and no \<open>RecordCount\<close>: the reader is
  built, and on a page of two records at the checkpoint's timestamp the guard does not
  fire.
\<close>

definition no_count_config :: BaseConfig where
  "no_count_config =
     \<lparr>ServerURL = ''https://snow'', Username = ''u'', Password = ''p'',
      AdditionalConfig =
        [endpointKey \<mapsto> ''incident'', timestampFieldKey \<mapsto> ''t'',
         nextRecordTimeKey \<mapsto> ''2015-01-01 10:00:00'']\<rparr>"

definition no_count_reader :: SnowDataReader where
  "no_count_reader =
     \<lparr>config = no_count_config, writer = [], checkpoint = None, http_client = [],
      state = cursor ''2015-01-01 10:00:01'' [''a''], collecting = 0, started = 1\<rparr>"

theorem NewSnowDataReader_validation_witness:
  "NewSnowDataReader no_count_config [] None \<noteq> None \<and>
   AdditionalConfig (config no_count_reader) recordCountKey = None \<and>
   fst (strconv_Atoi (cfg_index (AdditionalConfig (config no_count_reader)) recordCountKey)) = 0 \<and>
   removeCollectedRecords (poll_env tie_page) no_count_reader tie_page =
     (Inr ([rec_of ''b'' ''2015-01-01 10:00:01''], False), no_count_reader)"
proof -
  note inst = NewSnowDataReader_validation [of no_count_config "[]" None "poll_env tie_page"
      no_count_reader tie_page]
  have keys: "\<not> (AdditionalConfig no_count_config endpointKey = None \<or>
      AdditionalConfig no_count_config timestampFieldKey = None \<or>
      AdditionalConfig no_count_config nextRecordTimeKey = None)"
    by (simp add: no_count_config_def key_defs)
  have missing: "AdditionalConfig (config no_count_reader) recordCountKey = None"
    by (simp add: no_count_reader_def no_count_config_def key_defs)
  have built: "NewSnowDataReader no_count_config [] None \<noteq> None"
    using inst keys by blast
  have zero: "fst (strconv_Atoi (cfg_index (AdditionalConfig (config no_count_reader))
      recordCountKey)) = 0"
    using inst missing by blast
  have run: "removeCollectedRecords (poll_env tie_page) no_count_reader tie_page =
     (Inr ([rec_of ''b'' ''2015-01-01 10:00:01''], False), no_count_reader)"
    by (simp add: removeCollectedRecords_def getCheckpoint_def strconv_Atoi_def
        doRemoveRecords_filter listed_def Let_def no_count_reader_def no_count_config_def
        sample_defs key_defs value_defs)
  show ?thesis
    using built missing zero run by simp
qed


section \<open>The checkpoint written after emission\<close>

text \<open>
  A page whose first record the checkpoint already lists and whose second record, at the
  same timestamp, is new.
\<close>

definition overlap_page :: "jvalue list" where
  "overlap_page = [rec_of ''b'' ''10:00:01'', rec_of ''c'' ''10:00:01'']"

definition overlap_reader :: SnowDataReader where
  "overlap_reader = reader_at (cursor ''10:00:01'' [''b'']) ''100''"

text \<open>
  C2 does not hold of the code. \<open>IndexData\<close> hands \<open>writeCheckpoint\<close> the records left
  after dedup, not the page it fetched. On the page \<open>[b, c]\<close>, both at \<open>10:00:01\<close>, after
  a checkpoint \<open>{10:00:01, [b]}\<close>, the cycle is not refreshed and emits \<open>c\<close>; the
  checkpoint of the original page lists \<open>[c, b]\<close>, the one written lists \<open>[c]\<close> only.
\<close>

theorem checkpoint_of_overlap_page:
  "currentState_of ''t'' overlap_page = Inr (cursor ''10:00:01'' [''c'', ''b'']) \<and>
   fst (removeCollectedRecords (poll_env overlap_page) overlap_reader overlap_page) =
     Inr ([rec_of ''c'' ''10:00:01''], False) \<and>
   fst (IndexData (poll_env overlap_page) overlap_reader) = Inr None \<and>
   map RawData (writer (snd (IndexData (poll_env overlap_page) overlap_reader))) =
     [[[], ''c@10:00:01'']] \<and>
   state (snd (IndexData (poll_env overlap_page) overlap_reader)) = cursor ''10:00:01'' [''c''] \<and>
   checkpoint (snd (IndexData (poll_env overlap_page) overlap_reader)) = Some ''10:00:01|c''"
  by (simp add: IndexData_def CollectData_def CompareAndSwapInt32_def getURL_def
      getNextRecordTime_def indexRecords_def removeCollectedRecords_def getCheckpoint_def
      writeCheckpoint_def currentState_of_def base_NewData_def
      strconv_Atoi_def doRemoveRecords_filter listed_def Let_def overlap_page_def overlap_reader_def
      sample_defs key_defs value_defs)

text \<open>
  What follows from it: polled again with the same page, the reader emits \<open>b\<close>, which it
  had collected before.
\<close>

lemma overlap_page_polled_again:
  "map RawData
     (writer (snd (IndexData (poll_env overlap_page)
                     (snd (IndexData (poll_env overlap_page) overlap_reader))))) =
   [[[], ''c@10:00:01''], [[], ''b@10:00:01'']]"
  by (simp add: IndexData_def CollectData_def CompareAndSwapInt32_def getURL_def
      getNextRecordTime_def indexRecords_def removeCollectedRecords_def getCheckpoint_def
      writeCheckpoint_def currentState_of_def base_NewData_def
      strconv_Atoi_def doRemoveRecords_filter listed_def Let_def overlap_page_def overlap_reader_def
      sample_defs key_defs value_defs)

text \<open>
  Where nothing is removed the records handed on are the page itself, and the checkpoint
  is the one the claim describes: the boundary example of the specification.
\<close>

lemma boundary_checkpoint:
  "state (snd (IndexData
     (poll_env [rec_of ''a'' ''10:00:00'', rec_of ''b'' ''10:00:01'', rec_of ''c'' ''10:00:01''])
     (reader_at (cursor ''10:00:00'' []) ''100''))) = cursor ''10:00:01'' [''c'', ''b'']"
  by (simp add: IndexData_def CollectData_def CompareAndSwapInt32_def getURL_def
      getNextRecordTime_def indexRecords_def removeCollectedRecords_def getCheckpoint_def
      writeCheckpoint_def currentState_of_def base_NewData_def
      strconv_Atoi_def doRemoveRecords_filter listed_def Let_def
      sample_defs key_defs value_defs)

text \<open>
  In general: in a cycle that is not refreshed and emits records, with every
  collaborator succeeding, the state written and cached is the one computed from the
  records that were emitted.
\<close>

lemma indexRecords_checkpoint_of_emitted:
  assumes rm: "removeCollectedRecords env snow page = (Inr (recs, False), snow1)"
    and emitted: "recs \<noteq> []"
    and rendered: "render_records (sprint_record env) recs = Inr raws"
    and written: "\<forall>d. writer_WriteData env d = None"
    and cs: "currentState_of (cfg_index (AdditionalConfig (config snow)) timestampFieldKey) recs =
             Inr currentState"
    and marshalled: "json_Marshal env currentState = Inr blob"
    and stored: "checkpoint_WriteCheckpoint env (AdditionalConfig (config snow)) blob = None"
  shows "fst (indexRecords env snow page) = Inr None \<and>
         state (snd (indexRecords env snow page)) = currentState \<and>
         checkpoint (snd (indexRecords env snow page)) = Some blob"
proof -
  have cfg: "config snow1 = config snow"
    using removeCollectedRecords_frame(1) [of env snow page] rm by simp
  show ?thesis
    using emitted
    by (simp add: indexRecords_def rm rendered written [rule_format] Let_def
        writeCheckpoint_def cfg cs marshalled stored)
qed

section \<open>Records with a missing field\<close>

text \<open>A page whose last record has no \<open>sys_id\<close>.\<close>

definition incomplete_page :: "jvalue list" where
  "incomplete_page = [rec_of ''a'' ''10:00:00'', JObj [(''t'', JStr ''10:00:01'')]]"

text \<open>
  C7 does not hold of the code. On a page whose last record has no ID, with every
  collaborator succeeding, the record is not dropped but handed to the writer with the
  rest of the page, and the checkpoint computation that follows aborts on it: the
  unchecked assertion \<open>r["sys_id"].(string)\<close> of \<open>writeCheckpoint\<close> panics, where
  \<open>doRemoveRecords\<close> reads the same field in the comma-ok form. The page is emitted and
  no checkpoint is written.
\<close>

theorem incomplete_record_is_emitted:
  "map RawData (writer (snd (IndexData (poll_env incomplete_page)
                               (reader_at (cursor ''10:00:00'' []) ''100'')))) =
     [[[], [], ''a@10:00:00'', ''@10:00:01'']] \<and>
   fst (IndexData (poll_env incomplete_page) (reader_at (cursor ''10:00:00'' []) ''100'')) =
     Inl TypeAssertion \<and>
   checkpoint (snd (IndexData (poll_env incomplete_page)
                      (reader_at (cursor ''10:00:00'' []) ''100''))) = None"
  by (simp add: IndexData_def CollectData_def CompareAndSwapInt32_def getURL_def
      getNextRecordTime_def indexRecords_def removeCollectedRecords_def getCheckpoint_def
      writeCheckpoint_def currentState_of_def base_NewData_def
      Let_def incomplete_page_def sample_defs key_defs value_defs)

lemma render_records_total:
  assumes "\<forall>v \<in> set recs. is_record v"
  shows "\<exists>raws. render_records f recs = Inr raws \<and> length raws = length recs"
  using assms
proof (induction recs)
  case Nil
  then show ?case by simp
next
  case (Cons v recs)
  then obtain raws where "render_records f recs = Inr raws" "length raws = length recs"
    by auto
  with Cons.prems show ?case
    by (cases v) (simp_all add: is_record_def)
qed

text \<open>
  The checkpoint computation, for its part, panics whenever the last of the records it
  is given lacks the ID or the timestamp.
\<close>

lemma iface_eq_same: "iface_eq v v \<noteq> Some False"
  by (cases v) simp_all

lemma currentState_of_incomplete_last:
  assumes "map_of r ''sys_id'' = None \<or> map_of r timefield = None"
  shows "isl (currentState_of timefield (xs @ [JObj r]))"
proof (cases "map_of r timefield = None")
  case True
  then show ?thesis
    by (simp add: currentState_of_def jindex_def split: sum.splits)
next
  case False
  with assms have "map_of r ''sys_id'' = None" by simp
  then show ?thesis
    using iface_eq_same [of "jindex r timefield"]
    by (cases "iface_eq (jindex r timefield) (jindex r timefield)")
       (auto simp add: currentState_of_def jindex_def split: sum.splits bool.splits)
qed

text \<open>
  What the dedup step and the rendering do with such a record. The dedup step handles
  each element on its own and does not fail: an element that is not a field-to-value
  mapping is dropped; a record missing its timestamp field is kept for emission; a
  record missing its ID field is deduplicated under the empty ID, that is, dropped only
  when its timestamp is the checkpoint's and the checkpoint lists the empty ID, and kept
  otherwise; the records before and after it are partitioned as they are without it;
  and the rendering for emission of what the dedup step hands on completes, with one
  entry per record.
\<close>

theorem doRemoveRecords_incomplete_record:
  "doRemoveRecords snow (xs @ v # ys) ltr lrt =
     doRemoveRecords snow xs ltr lrt @ doRemoveRecords snow [v] ltr lrt @
     doRemoveRecords snow ys ltr lrt \<and>
   (\<not> is_record v \<longrightarrow> doRemoveRecords snow [v] ltr lrt = []) \<and>
   (map_of r (cfg_index (AdditionalConfig (config snow)) timestampFieldKey) = None \<longrightarrow>
      doRemoveRecords snow [JObj r] ltr lrt = [JObj r]) \<and>
   (map_of r ''sys_id'' = None \<longrightarrow>
      doRemoveRecords snow [JObj r] ltr lrt =
        (if jindex r (cfg_index (AdditionalConfig (config snow)) timestampFieldKey) = JStr lrt \<and>
            ltr [] \<noteq> None
         then [] else [JObj r])) \<and>
   (\<exists>raws. render_records f (doRemoveRecords snow page ltr lrt) = Inr raws \<and>
           length raws = length (doRemoveRecords snow page ltr lrt))"
  using render_records_total [of "doRemoveRecords snow page ltr lrt" f]
  by (simp add: doRemoveRecords_filter is_record_def listed_def jindex_def
      as_string_or_zero_def)

theorem doRemoveRecords_incomplete_record_witness:
  "doRemoveRecords (reader_at dedup_checkpoint ''100'')
     ([rec_of ''b'' ''10:00:01''] @ JObj [(''sys_id'', JStr ''c'')] # [rec_of ''d'' ''10:00:02''])
     (mkLastTimeRecords [''b'', ''c''] Map.empty) ''10:00:01'' =
     [JObj [(''sys_id'', JStr ''c'')], rec_of ''d'' ''10:00:02''] \<and>
   doRemoveRecords (reader_at dedup_checkpoint ''100'') [JStr ''stray'']
     (mkLastTimeRecords [''b'', ''c''] Map.empty) ''10:00:01'' = [] \<and>
   doRemoveRecords (reader_at dedup_checkpoint ''100'') [JObj [(''t'', JStr ''10:00:01'')]]
     (mkLastTimeRecords [''b'', ''c''] Map.empty) ''10:00:01'' = [JObj [(''t'', JStr ''10:00:01'')]]"
proof -
  let ?snow = "reader_at dedup_checkpoint ''100''"
  let ?ltr = "mkLastTimeRecords [''b'', ''c''] Map.empty"
  have no_ts: "map_of [(''sys_id'', JStr ''c'')]
      (cfg_index (AdditionalConfig (config ?snow)) timestampFieldKey) = None"
    by (simp add: sample_defs key_defs value_defs)
  have no_id: "map_of [(''t'', JStr ''10:00:01'')] ''sys_id'' = None"
    by simp
  have stray: "\<not> is_record (JStr ''stray'')"
    by (simp add: is_record_def)
  have empty_id: "?ltr [] = None"
    by simp
  have b: "doRemoveRecords ?snow [rec_of ''b'' ''10:00:01''] ?ltr ''10:00:01'' = []"
    by (simp add: doRemoveRecords_filter listed_def is_record_def sample_defs key_defs value_defs)
  have d: "doRemoveRecords ?snow [rec_of ''d'' ''10:00:02''] ?ltr ''10:00:01'' =
      [rec_of ''d'' ''10:00:02'']"
    by (simp add: doRemoveRecords_filter listed_def is_record_def sample_defs key_defs value_defs)
  have one: "doRemoveRecords ?snow
      ([rec_of ''b'' ''10:00:01''] @ JObj [(''sys_id'', JStr ''c'')] # [rec_of ''d'' ''10:00:02''])
      ?ltr ''10:00:01'' = [JObj [(''sys_id'', JStr ''c'')], rec_of ''d'' ''10:00:02'']"
    using doRemoveRecords_incomplete_record [of ?snow "[rec_of ''b'' ''10:00:01'']"
        "JObj [(''sys_id'', JStr ''c'')]" "[rec_of ''d'' ''10:00:02'']" ?ltr "''10:00:01''"
        "[(''sys_id'', JStr ''c'')]"] no_ts b d
    by simp
  have two: "doRemoveRecords ?snow [JStr ''stray''] ?ltr ''10:00:01'' = []"
    using doRemoveRecords_incomplete_record [of ?snow "[]" "JStr ''stray''" "[]" ?ltr
        "''10:00:01''" "[]"] stray
    by blast
  have three: "doRemoveRecords ?snow [JObj [(''t'', JStr ''10:00:01'')]] ?ltr ''10:00:01'' =
      [JObj [(''t'', JStr ''10:00:01'')]]"
    using doRemoveRecords_incomplete_record [of ?snow "[]" "JObj [(''t'', JStr ''10:00:01'')]"
        "[]" ?ltr "''10:00:01''" "[(''t'', JStr ''10:00:01'')]"] no_id empty_id
    by simp
  show ?thesis
    using one two three by simp
qed


section \<open>The collect service\<close>

text \<open>
  What the service reads from outside itself: the key names of the repository's \<open>base\<close>
  package (not part of the sources at hand), the Go runtime, the JSON codec, the
  constructor of the heartbeat writer (\<open>False\<close> where it returns nil) and the Job
  Factory's \<open>CreateJob\<close> (\<open>None\<close> where it returns a nil job). \<open>fmt_Sprintf_d\<close> is
  \<open>fmt.Sprintf("%d", n)\<close>.
\<close>

record 'j svc_env =
  base_Heartbeat :: string
  base_KafkaBrokers :: string
  base_KafkaTopic :: string
  base_Key :: string
  base_TaskStats :: string
  base_Host :: string
  base_Platform :: string
  base_App :: string
  base_CpuCount :: string
  base_Timestamp :: string
  base_HeartbeatRoot :: string
  base_TaskConfigKey :: string
  runtime_GOOS :: string
  runtime_NumCPU :: int
  fmt_Sprintf_d :: "int \<Rightarrow> string"
  json_Marshal_stats :: "(string \<rightharpoonup> string) \<Rightarrow> string"
  json_Unmarshal_config :: "string \<Rightarrow> error + (string \<rightharpoonup> string)"
  NewKafkaDataWriter :: "(string \<rightharpoonup> string) \<Rightarrow> bool"
  jobFactory_CreateJob :: "string \<Rightarrow> (string \<rightharpoonup> string) \<Rightarrow> 'j option"

text \<open>One call of the coordination client's \<open>CreateNode\<close>.\<close>

record CreateNode =
  path :: string
  payload :: string
  ephemeral :: bool
  overwrite :: bool

text \<open>
  The service, with the coordination client kept by the calls it received and the job
  cache as a map from the task's key to its job.
\<close>

record 'j CollectService =
  config :: "string \<rightharpoonup> string"
  zkClient :: "CreateNode list"
  jobs :: "string \<rightharpoonup> 'j"
  host :: string
  started :: int

subsection \<open>Heartbeats\<close>

definition initial_stats :: "'j svc_env \<Rightarrow> string \<Rightarrow> (string \<rightharpoonup> string)" where
  "initial_stats env h =
     [base_Host env \<mapsto> h, base_Platform env \<mapsto> runtime_GOOS env, base_App env \<mapsto> [],
      base_CpuCount env \<mapsto> fmt_Sprintf_d env (runtime_NumCPU env), base_Timestamp env \<mapsto> []]"

text \<open>
  The loop over \<open>cs.jobFactory.Apps()\<close> in coordination-service mode: one node per
  application, ephemeral and overwriting. The result of \<open>CreateNode\<close> is dropped.
\<close>

fun zk_publish ::
  "'j svc_env \<Rightarrow> string \<Rightarrow> (string \<rightharpoonup> string) \<Rightarrow> string list \<Rightarrow> CreateNode list
   \<Rightarrow> CreateNode list" where
  "zk_publish env h stats [] calls = calls"
| "zk_publish env h stats (app # apps) calls =
     (let stats1 = stats(base_App env \<mapsto> app);
          rawData = json_Marshal_stats env stats1;
          node = base_HeartbeatRoot env @ ''/'' @ h @ ''!'' @ app
      in zk_publish env h stats1 apps
           (calls @ [\<lparr>path = node, payload = rawData, ephemeral = True, overwrite = True\<rparr>]))"

text \<open>
  \<open>now\<close> is what \<open>time.Now().UnixNano()\<close> reads and \<open>apps\<close> what the Job Factory's
  \<open>Apps()\<close> returns. The function has no loop but the one over the applications and
  never reads the \<open>started\<close> flag.
\<close>

definition doHeartbeatsThroughZooKeeper ::
  "'j svc_env \<Rightarrow> 'j CollectService \<Rightarrow> int \<Rightarrow> string list \<Rightarrow> 'j CollectService" where
  "doHeartbeatsThroughZooKeeper env cs now apps =
     (let stats = (initial_stats env (host cs))(base_Timestamp env \<mapsto> fmt_Sprintf_d env now)
      in cs\<lparr>zkClient := zk_publish env (host cs) stats apps (zkClient cs)\<rparr>)"

text \<open>What the heartbeat writer of the event-log mode is asked to do.\<close>

datatype writer_event = WStart | WWriteData Data | WStop

fun kafka_publish ::
  "'j svc_env \<Rightarrow> (string \<rightharpoonup> string) \<Rightarrow> string list \<Rightarrow> writer_event list
   \<Rightarrow> (string \<rightharpoonup> string) \<times> writer_event list" where
  "kafka_publish env stats [] evs = (stats, evs)"
| "kafka_publish env stats (app # apps) evs =
     (let stats1 = stats(base_App env \<mapsto> app);
          rawData = json_Marshal_stats env stats1
      in kafka_publish env stats1 apps
           (evs @ [WWriteData \<lparr>MetaInfo = [], RawData = [rawData]\<rparr>]))"

text \<open>
  The loop of the event-log mode, run against what it observes: each element of the
  trace is one pass through the loop head, holding the value read from \<open>cs.started\<close>
  and, for the tick the body then waits for, the clock and the applications. The flag is
  written by another thread, so its values are an input. The result says whether the
  loop was left within the trace; on an exhausted trace it is still running.
\<close>

fun kafka_loop ::
  "'j svc_env \<Rightarrow> (string \<rightharpoonup> string) \<Rightarrow> (int \<times> int \<times> string list) list \<Rightarrow>
   writer_event list \<Rightarrow> bool \<times> writer_event list" where
  "kafka_loop env stats [] evs = (False, evs)"
| "kafka_loop env stats ((flag, now, apps) # trace) evs =
     (if flag \<noteq> 0 then
        (let stats1 = stats(base_Timestamp env \<mapsto> fmt_Sprintf_d env now);
             (stats2, evs2) = kafka_publish env stats1 apps evs
         in kafka_loop env stats2 trace evs2)
      else (True, evs))"

text \<open>
  The result is \<open>Inl\<close> where the function panics on a nil writer, and otherwise whether
  it returned within the trace, with the events of its writer. The deferred \<open>Stop\<close> runs
  when the function returns.
\<close>

definition brokerConfig :: "'j svc_env \<Rightarrow> 'j CollectService \<Rightarrow> (string \<rightharpoonup> string)" where
  "brokerConfig env cs =
     [base_KafkaBrokers env \<mapsto> cfg_index (config cs) (base_KafkaBrokers env),
      base_KafkaTopic env \<mapsto> base_TaskStats env,
      base_Key env \<mapsto> base_TaskStats env]"

definition doHeartBeatsThroughKafka ::
  "'j svc_env \<Rightarrow> 'j CollectService \<Rightarrow> (int \<times> int \<times> string list) list \<Rightarrow>
   panic + bool \<times> writer_event list" where
  "doHeartBeatsThroughKafka env cs trace =
     (if \<not> NewKafkaDataWriter env (brokerConfig env cs) then Inl NilWriter
      else
        (let (returned, evs) = kafka_loop env (initial_stats env (host cs)) trace [WStart]
         in Inr (returned, if returned then evs @ [WStop] else evs)))"

text \<open>
  The transport is chosen by the configuration. The result is the service after the
  call, whether the call returned within the trace, and the events of the heartbeat
  writer. The coordination-service mode reads the clock and the applications once and
  returns; the trace is what the event-log mode observes.
\<close>

definition doHeartbeats ::
  "'j svc_env \<Rightarrow> 'j CollectService \<Rightarrow> int \<Rightarrow> string list \<Rightarrow>
   (int \<times> int \<times> string list) list \<Rightarrow>
   panic + 'j CollectService \<times> bool \<times> writer_event list" where
  "doHeartbeats env cs now apps trace =
     (if cfg_index (config cs) (base_Heartbeat env) \<noteq> ''kafka''
      then Inr (doHeartbeatsThroughZooKeeper env cs now apps, True, [])
      else
        (case doHeartBeatsThroughKafka env cs trace of
           Inl p \<Rightarrow> Inl p
         | Inr (returned, evs) \<Rightarrow> Inr (cs, returned, evs)))"

subsection \<open>Handling a batch of tasks\<close>

text \<open>What happens to jobs: \<open>job.Start()\<close> and the asynchronous \<open>job.Callback()\<close>.\<close>

datatype 'j job_event = Started 'j | CalledBack 'j

text \<open>
  The loop of \<open>handleTasks\<close> over the raw records, with the job cache and the job events
  so far. A \<open>continue\<close> goes on with the rest; a \<open>return\<close> ends the loop with the rest of
  the batch unread.
\<close>

fun handleTasks_loop ::
  "'j svc_env \<Rightarrow> string \<Rightarrow> Data \<Rightarrow> string list \<Rightarrow>
   (string \<rightharpoonup> 'j) \<times> 'j job_event list \<Rightarrow> (string \<rightharpoonup> 'j) \<times> 'j job_event list" where
  "handleTasks_loop env h dat [] acc = acc"
| "handleTasks_loop env h dat (rawData # rest) (cache, evs) =
     (case json_Unmarshal_config env rawData of
        Inl err \<Rightarrow> handleTasks_loop env h dat rest (cache, evs)
      | Inr taskConfig \<Rightarrow>
          if taskConfig (base_App env) = None then handleTasks_loop env h dat rest (cache, evs)
          else if cfg_index (map_of (MetaInfo dat)) (base_Host env) \<noteq> h then (cache, evs)
          else
            (let key = cfg_index taskConfig (base_TaskConfigKey env) in
             case cache key of
               Some job \<Rightarrow> handleTasks_loop env h dat rest (cache, evs @ [CalledBack job])
             | None \<Rightarrow>
                 (case jobFactory_CreateJob env (cfg_index taskConfig (base_App env)) taskConfig of
                    None \<Rightarrow> (cache, evs)
                  | Some job \<Rightarrow>
                      handleTasks_loop env h dat rest
                        (cache(key \<mapsto> job), evs @ [Started job, CalledBack job]))))"

definition handleTasks ::
  "'j svc_env \<Rightarrow> 'j CollectService \<Rightarrow> Data \<Rightarrow> 'j CollectService \<times> 'j job_event list" where
  "handleTasks env cs dat =
     (if map_of (MetaInfo dat) (base_Host env) = None then (cs, [])
      else
        (let (cache, evs) = handleTasks_loop env (host cs) dat (RawData dat) (jobs cs, [])
         in (cs\<lparr>jobs := cache\<rparr>, evs)))"

subsection \<open>The logical heartbeat record and a sample service\<close>

text \<open>
  The record \<open>{host, platform, app, cpuCount, timestamp}\<close> of one application at one
  instant, marshalled.
\<close>

definition heartbeat_record :: "'j svc_env \<Rightarrow> string \<Rightarrow> int \<Rightarrow> string \<Rightarrow> string" where
  "heartbeat_record env h now app =
     json_Marshal_stats env
       ((initial_stats env h)(base_Timestamp env \<mapsto> fmt_Sprintf_d env now, base_App env \<mapsto> app))"

definition zk_node :: "'j svc_env \<Rightarrow> string \<Rightarrow> int \<Rightarrow> string \<Rightarrow> CreateNode" where
  "zk_node env h now app =
     \<lparr>path = base_HeartbeatRoot env @ ''/'' @ h @ ''!'' @ app,
      payload = heartbeat_record env h now app, ephemeral = True, overwrite = True\<rparr>"

definition tick_events :: "'j svc_env \<Rightarrow> string \<Rightarrow> int \<times> int \<times> string list \<Rightarrow> writer_event list" where
  "tick_events env h tick =
     (case tick of (flag, now, apps) \<Rightarrow>
        map (\<lambda>app. WWriteData \<lparr>MetaInfo = [], RawData = [heartbeat_record env h now app]\<rparr>) apps)"

text \<open>
  A sample service on the host \<open>worker1\<close>. Jobs are named by strings; the factory knows
  the application \<open>snow\<close> only. A raw task record is decoded by name.
\<close>

definition sample_decode :: "string \<Rightarrow> error + (string \<rightharpoonup> string)" where
  "sample_decode raw =
     (if raw = ''snow-task'' then Inr [''App'' \<mapsto> ''snow'', ''TaskConfigKey'' \<mapsto> ''task1'']
      else if raw = ''ghost-task'' then Inr [''App'' \<mapsto> ''ghost'', ''TaskConfigKey'' \<mapsto> ''task2'']
      else Inl (Error ''unexpected config format''))"

definition sample_show :: "int \<Rightarrow> string" where
  "sample_show n = (if n = 4 then ''4'' else if n = 6 then ''6'' else if n = 12 then ''12''
                    else if n = 18 then ''18'' else ''?'')"

definition svc :: "string svc_env" where
  "svc =
     \<lparr>base_Heartbeat = ''Heartbeat'', base_KafkaBrokers = ''KafkaBrokers'',
      base_KafkaTopic = ''KafkaTopic'', base_Key = ''Key'', base_TaskStats = ''TaskStats'',
      base_Host = ''Host'', base_Platform = ''Platform'', base_App = ''App'',
      base_CpuCount = ''CpuCount'', base_Timestamp = ''Timestamp'',
      base_HeartbeatRoot = ''/heartbeats'', base_TaskConfigKey = ''TaskConfigKey'',
      runtime_GOOS = ''linux'', runtime_NumCPU = 4, fmt_Sprintf_d = sample_show,
      json_Marshal_stats = (\<lambda>m. cfg_index m ''Host'' @ '':'' @ cfg_index m ''App'' @ '':''
                                 @ cfg_index m ''Timestamp''),
      json_Unmarshal_config = sample_decode,
      NewKafkaDataWriter = (\<lambda>c. True),
      jobFactory_CreateJob =
        (\<lambda>app c. if app = ''snow'' then Some (''job:'' @ cfg_index c ''TaskConfigKey'') else None)\<rparr>"

definition worker :: "string \<Rightarrow> string CollectService" where
  "worker transport =
     \<lparr>config = [''Heartbeat'' \<mapsto> transport, ''KafkaBrokers'' \<mapsto> ''broker:9092''],
      zkClient = [], jobs = Map.empty, host = ''worker1'', started = 1\<rparr>"

definition batch :: "string list \<Rightarrow> Data" where
  "batch raws = \<lparr>MetaInfo = [(''Host'', ''worker1'')], RawData = raws\<rparr>"

lemmas svc_defs =
  svc_def worker_def batch_def sample_decode_def sample_show_def heartbeat_record_def
  zk_node_def tick_events_def initial_stats_def brokerConfig_def cfg_index_def

subsection \<open>An unknown application type\<close>

text \<open>
  C9 does not hold of the code. A batch of two tasks for this host, the first of an
  application type the factory does not know: \<open>handleTasks\<close> returns at the nil job, and
  the second task, a valid one, is neither created nor started nor called back. The same
  valid task is handled when it stands alone and when it follows a malformed record,
  which is skipped with \<open>continue\<close>.
\<close>

theorem unknown_app_ends_the_batch:
  "handleTasks svc (worker ''zookeeper'') (batch [''ghost-task'', ''snow-task'']) =
     (worker ''zookeeper'', []) \<and>
   snd (handleTasks svc (worker ''zookeeper'') (batch [''snow-task''])) =
     [Started ''job:task1'', CalledBack ''job:task1''] \<and>
   snd (handleTasks svc (worker ''zookeeper'') (batch [''garbage'', ''snow-task''])) =
     [Started ''job:task1'', CalledBack ''job:task1'']"
  by (simp add: handleTasks_def svc_defs)

text \<open>
  In general: at a task of this host whose key is not cached and for which the factory
  returns a nil job, the loop ends with the cache and the events it has, whatever
  follows in the batch.
\<close>

lemma handleTasks_loop_nil_job:
  assumes "json_Unmarshal_config env raw = Inr taskConfig"
    and "taskConfig (base_App env) \<noteq> None"
    and "cfg_index (map_of (MetaInfo dat)) (base_Host env) = h"
    and "cache (cfg_index taskConfig (base_TaskConfigKey env)) = None"
    and "jobFactory_CreateJob env (cfg_index taskConfig (base_App env)) taskConfig = None"
  shows "handleTasks_loop env h dat (raw # rest) (cache, evs) = (cache, evs)"
  using assms by (auto simp add: Let_def)


subsection \<open>Heartbeat cadence and termination\<close>

lemma zk_publish_nodes:
  "zk_publish env h stats apps calls =
   calls @ map (\<lambda>app. \<lparr>path = base_HeartbeatRoot env @ ''/'' @ h @ ''!'' @ app,
                        payload = json_Marshal_stats env (stats(base_App env \<mapsto> app)),
                        ephemeral = True, overwrite = True\<rparr>) apps"
  by (induction apps arbitrary: stats calls) (simp_all add: Let_def)

lemma kafka_publish_events:
  "kafka_publish env stats apps evs =
   (if apps = [] then stats else stats(base_App env \<mapsto> last apps),
    evs @ map (\<lambda>app. WWriteData \<lparr>MetaInfo = [],
                 RawData = [json_Marshal_stats env (stats(base_App env \<mapsto> app))]\<rparr>) apps)"
  by (induction apps arbitrary: stats evs) (simp_all add: Let_def)

text \<open>Two maps that agree away from the timestamp and the application.\<close>

definition agree_off :: "'j svc_env \<Rightarrow> (string \<rightharpoonup> string) \<Rightarrow> (string \<rightharpoonup> string) \<Rightarrow> bool" where
  "agree_off env m m' =
     (\<forall>k. k \<noteq> base_Timestamp env \<and> k \<noteq> base_App env \<longrightarrow> m k = m' k)"

lemma agree_off_upd:
  "agree_off env m m' \<Longrightarrow>
   m(base_Timestamp env \<mapsto> ts, base_App env \<mapsto> app) =
   m'(base_Timestamp env \<mapsto> ts, base_App env \<mapsto> app)"
  by (rule ext) (simp add: agree_off_def)

lemma agree_off_step:
  "agree_off env m m' \<Longrightarrow> agree_off env (m(base_Timestamp env \<mapsto> ts)) m'"
  "agree_off env m m' \<Longrightarrow> agree_off env (m(base_App env \<mapsto> app)) m'"
  by (simp_all add: agree_off_def)

lemma kafka_tick:
  assumes "agree_off env stats (initial_stats env h)"
  shows "\<exists>stats'. agree_off env stats' (initial_stats env h) \<and>
           kafka_publish env (stats(base_Timestamp env \<mapsto> fmt_Sprintf_d env now)) apps evs =
           (stats', evs @ tick_events env h (flag, now, apps))"
proof -
  let ?stats1 = "stats(base_Timestamp env \<mapsto> fmt_Sprintf_d env now)"
  have rec: "json_Marshal_stats env (?stats1(base_App env \<mapsto> app)) =
             heartbeat_record env h now app" for app
    using agree_off_upd [OF assms] by (simp add: heartbeat_record_def)
  have a1: "agree_off env ?stats1 (initial_stats env h)"
    using assms by (rule agree_off_step)
  then have a2: "agree_off env (?stats1(base_App env \<mapsto> app)) (initial_stats env h)" for app
    by (rule agree_off_step)
  show ?thesis
    using a1 a2 by (simp add: kafka_publish_events rec tick_events_def)
qed

lemma kafka_loop_running:
  assumes "agree_off env stats (initial_stats env h)"
    and "\<forall>tick \<in> set ticks. fst tick \<noteq> 0"
  shows "\<exists>stats'. agree_off env stats' (initial_stats env h) \<and>
           kafka_loop env stats (ticks @ rest) evs =
           kafka_loop env stats' rest (evs @ concat (map (tick_events env h) ticks))"
  using assms
proof (induction ticks arbitrary: stats evs)
  case Nil
  then show ?case by auto
next
  case (Cons tick ticks)
  obtain flag now apps where tick: "tick = (flag, now, apps)"
    by (cases tick)
  have running: "flag \<noteq> 0"
    using Cons.prems(2) tick by simp
  obtain stats1 where
    a: "agree_off env stats1 (initial_stats env h)" and
    p: "kafka_publish env (stats(base_Timestamp env \<mapsto> fmt_Sprintf_d env now)) apps evs =
        (stats1, evs @ tick_events env h (flag, now, apps))"
    using kafka_tick [OF Cons.prems(1)] by blast
  have later: "\<forall>tick \<in> set ticks. fst tick \<noteq> 0"
    using Cons.prems(2) by simp
  obtain stats' where
    a': "agree_off env stats' (initial_stats env h)" and
    l: "kafka_loop env stats1 (ticks @ rest) (evs @ tick_events env h (flag, now, apps)) =
        kafka_loop env stats' rest
          ((evs @ tick_events env h (flag, now, apps)) @ concat (map (tick_events env h) ticks))"
    using Cons.IH [OF a later] by blast
  have "kafka_loop env stats ((tick # ticks) @ rest) evs =
        kafka_loop env stats' rest (evs @ concat (map (tick_events env h) (tick # ticks)))"
    using running by (simp add: tick p l)
  with a' show ?case by blast
qed

lemma agree_off_refl: "agree_off env m m"
  by (simp add: agree_off_def)

lemma kafka_loop_still_running:
  assumes "\<forall>tick \<in> set ticks. fst tick \<noteq> 0"
  shows "kafka_loop env (initial_stats env h) ticks evs =
         (False, evs @ concat (map (tick_events env h) ticks))"
  using kafka_loop_running [OF agree_off_refl assms, where rest = "[]" and evs = evs and h = h]
  by auto

lemma kafka_loop_stopped:
  assumes "\<forall>tick \<in> set ticks. fst tick \<noteq> 0"
  shows "kafka_loop env (initial_stats env h) (ticks @ (0, now, apps) # rest) evs =
         (True, evs @ concat (map (tick_events env h) ticks))"
  using kafka_loop_running [OF agree_off_refl assms, where rest = "(0, now, apps) # rest"
      and evs = evs and h = h]
  by auto

lemma zookeeper_nodes:
  "zkClient (doHeartbeatsThroughZooKeeper env cs now apps) =
   zkClient cs @ map (zk_node env (host cs) now) apps"
  by (simp add: doHeartbeatsThroughZooKeeper_def zk_publish_nodes zk_node_def
      heartbeat_record_def)

text \<open>
  C8, as stated, fails for the coordination-service transport. The service is started
  and its flag reads 1 at every observation, over two ticks; the reporter in
  coordination-service mode publishes one node for the one application and returns at
  once, with no second record and no stop signal seen. In event-log mode, over the same
  observations, it has published at both ticks and is still running.
\<close>

theorem zookeeper_heartbeat_returns_at_once:
  "doHeartbeats svc (worker ''zookeeper'') 6 [''snow'']
     [(1, 12, [''snow'']), (1, 18, [''snow''])] =
     Inr ((worker ''zookeeper'')\<lparr>zkClient :=
            [\<lparr>path = ''/heartbeats/worker1!snow'', payload = ''worker1:snow:6'',
              ephemeral = True, overwrite = True\<rparr>]\<rparr>, True, []) \<and>
   doHeartbeats svc (worker ''kafka'') 6 [''snow'']
     [(1, 12, [''snow'']), (1, 18, [''snow''])] =
     Inr (worker ''kafka'', False,
          [WStart, WWriteData \<lparr>MetaInfo = [], RawData = [''worker1:snow:12'']\<rparr>,
           WWriteData \<lparr>MetaInfo = [], RawData = [''worker1:snow:18'']\<rparr>])"
  by (simp add: doHeartbeats_def doHeartbeatsThroughZooKeeper_def doHeartBeatsThroughKafka_def
      Let_def svc_defs)

text \<open>
  C8, amended. In event-log mode the Heartbeat Reporter starts its own dedicated writer,
  publishes one record per application of the Job Factory at every tick it waits for
  while the service's \<open>started\<close> flag reads non-zero, keeps running as long as the flag
  does, and when it reads the flag as zero stops the writer and returns. In
  coordination-service mode it publishes one ephemeral, overwriting node per application
  exactly once and returns, whatever the \<open>started\<close> flag holds: it has no interval and
  does not wait for the stop signal.
\<close>

theorem heartbeat_reporter:
  "zkClient (doHeartbeatsThroughZooKeeper env cs now apps) =
     zkClient cs @ map (zk_node env (host cs) now) apps \<and>
   doHeartbeatsThroughZooKeeper env (cs\<lparr>started := flag\<rparr>) now apps =
     (doHeartbeatsThroughZooKeeper env cs now apps)\<lparr>started := flag\<rparr> \<and>
   (NewKafkaDataWriter env (brokerConfig env cs) \<and> (\<forall>tick \<in> set ticks. fst tick \<noteq> 0) \<longrightarrow>
      doHeartBeatsThroughKafka env cs ticks =
        Inr (False, WStart # concat (map (tick_events env (host cs)) ticks)) \<and>
      doHeartBeatsThroughKafka env cs (ticks @ (0, now', apps') # rest) =
        Inr (True, WStart # concat (map (tick_events env (host cs)) ticks) @ [WStop]))"
proof (intro conjI impI)
  show "zkClient (doHeartbeatsThroughZooKeeper env cs now apps) =
     zkClient cs @ map (zk_node env (host cs) now) apps"
    by (rule zookeeper_nodes)
  show "doHeartbeatsThroughZooKeeper env (cs\<lparr>started := flag\<rparr>) now apps =
     (doHeartbeatsThroughZooKeeper env cs now apps)\<lparr>started := flag\<rparr>"
    by (simp add: doHeartbeatsThroughZooKeeper_def)
next
  assume h: "NewKafkaDataWriter env (brokerConfig env cs) \<and> (\<forall>tick \<in> set ticks. fst tick \<noteq> 0)"
  then have running: "\<forall>tick \<in> set ticks. fst tick \<noteq> 0"
    by simp
  show "doHeartBeatsThroughKafka env cs ticks =
        Inr (False, WStart # concat (map (tick_events env (host cs)) ticks))"
    using h by (simp add: doHeartBeatsThroughKafka_def kafka_loop_still_running [OF running])
  show "doHeartBeatsThroughKafka env cs (ticks @ (0, now', apps') # rest) =
        Inr (True, WStart # concat (map (tick_events env (host cs)) ticks) @ [WStop])"
    using h by (simp add: doHeartBeatsThroughKafka_def kafka_loop_stopped [OF running])
qed

theorem heartbeat_reporter_witness:
  "zkClient (doHeartbeatsThroughZooKeeper svc (worker ''zookeeper'') 6 [''snow'']) =
     [\<lparr>path = ''/heartbeats/worker1!snow'', payload = ''worker1:snow:6'',
       ephemeral = True, overwrite = True\<rparr>] \<and>
   doHeartBeatsThroughKafka svc (worker ''kafka'') [(1, 12, [''snow'']), (1, 18, [''snow''])] =
     Inr (False,
          [WStart, WWriteData \<lparr>MetaInfo = [], RawData = [''worker1:snow:12'']\<rparr>,
           WWriteData \<lparr>MetaInfo = [], RawData = [''worker1:snow:18'']\<rparr>]) \<and>
   doHeartBeatsThroughKafka svc (worker ''kafka'')
     ([(1, 12, [''snow'']), (1, 18, [''snow''])] @ (0, 24, [''snow'']) # []) =
     Inr (True,
          [WStart, WWriteData \<lparr>MetaInfo = [], RawData = [''worker1:snow:12'']\<rparr>,
           WWriteData \<lparr>MetaInfo = [], RawData = [''worker1:snow:18'']\<rparr>, WStop])"
proof -
  let ?ticks = "[(1, 12, [''snow'']), (1, 18, [''snow''])] :: (int \<times> int \<times> string list) list"
  have w: "NewKafkaDataWriter svc (brokerConfig svc (worker ''kafka'')) \<and>
      (\<forall>tick \<in> set ?ticks. fst tick \<noteq> 0)"
    by (simp add: svc_def)
  have zk: "zkClient (doHeartbeatsThroughZooKeeper svc (worker ''zookeeper'') 6 [''snow'']) =
      zkClient (worker ''zookeeper'') @ map (zk_node svc (host (worker ''zookeeper'')) 6) [''snow'']"
    using heartbeat_reporter [where env = svc and cs = "worker ''zookeeper''" and now = 6
        and apps = "[''snow'']"]
    by blast
  have kafka: "doHeartBeatsThroughKafka svc (worker ''kafka'') ?ticks =
        Inr (False, WStart # concat (map (tick_events svc (host (worker ''kafka''))) ?ticks)) \<and>
      doHeartBeatsThroughKafka svc (worker ''kafka'') (?ticks @ (0, 24, [''snow'']) # []) =
        Inr (True, WStart # concat (map (tick_events svc (host (worker ''kafka''))) ?ticks) @ [WStop])"
    using heartbeat_reporter [where env = svc and cs = "worker ''kafka''" and ticks = ?ticks
        and now' = 24 and apps' = "[''snow'']" and rest = "[]"] w
    by blast
  show ?thesis
    using zk kafka by (simp add: svc_defs)
qed


end
